theory Spec2Isabelle
  imports Main "HOL-Library.AList"
begin

section \<open>Python strings\<close>

text \<open>
  A Python \<open>str\<close> is modelled as a \<open>string\<close> whose characters are the code points
  below 256. \<open>isspace\<close> lists the code points below 256 that \<open>str.isspace\<close> accepts,
  and \<open>strip\<close> is \<open>str.strip()\<close> without arguments.
\<close>

definition isspace :: "char \<Rightarrow> bool" where
  "isspace c = (c \<in> set [CHR 0x09, CHR 0x0A, CHR 0x0B, CHR 0x0C, CHR 0x0D,
                           CHR 0x1C, CHR 0x1D, CHR 0x1E, CHR 0x1F, CHR 0x20,
                           CHR 0x85, CHR 0xA0])"

definition strip :: "string \<Rightarrow> string" where
  "strip s = rev (dropWhile isspace (rev (dropWhile isspace s)))"

text \<open>\<open>sub in s\<close> on two strings: \<open>sub\<close> occurs in \<open>s\<close> as a contiguous substring.\<close>

fun str_in :: "string \<Rightarrow> string \<Rightarrow> bool" where
  "str_in sub [] = (sub = [])"
| "str_in sub (c # cs) = (take (length sub) (c # cs) = sub \<or> str_in sub cs)"

text \<open>\<open>str.lower()\<close> on code points below 256.\<close>

definition lower_char :: "char \<Rightarrow> char" where
  "lower_char c =
     (let n = (of_char c :: nat)
      in if (65 \<le> n \<and> n \<le> 90) \<or> (192 \<le> n \<and> n \<le> 222 \<and> n \<noteq> 215)
         then char_of (n + 32) else c)"

definition lower :: "string \<Rightarrow> string" where
  "lower s = map lower_char s"

text \<open>\<open>sep.join(xs)\<close>.\<close>

fun join :: "string \<Rightarrow> string list \<Rightarrow> string" where
  "join sep [] = []"
| "join sep [x] = x"
| "join sep (x # y # ys) = x @ sep @ join sep (y # ys)"

section \<open>The Gemini generation node (nodes\_gemini.py)\<close>

text \<open>
  Exceptions that leave \<open>generate\<close>, by Python class. \<open>ConstraintViolation\<close> is the
  error of the reference-image check, which lives in the module \<open>utils\<close>.
\<close>

datatype exn =
    ValueError string
  | ImportError string
  | RuntimeError string
  | UnboundLocalError string
  | ConstraintViolation string string nat

type_synonym bytes = string

record 't gen_request =
  prompt :: string
  api_key :: string
  model_name :: string
  num_images :: int
  aspect_ratio :: string
  resolution :: string
  base_url :: string
  ref_images :: "'t option"
  mask :: "'t option"
  custom_model :: string
  seed :: int

record client_kwargs =
  ck_api_key :: string
  ck_http_base_url :: "string option"

record image_config =
  ic_image_size :: "string option"
  ic_aspect_ratio :: "string option"

record gen_config =
  response_modalities :: "string list"
  gc_image_config :: "image_config option"

datatype 'p content = CText string | CImage 'p

record 'p request =
  rq_model :: string
  rq_contents :: "'p content list"
  rq_config :: gen_config

text \<open>
  What a response part with \<open>inline_data\<close> yields when the loop extracts its image:
  \<open>AsImage b\<close>: \<open>part.as_image()\<close> and the PNG encoding succeed with bytes \<open>b\<close>;
  otherwise that attempt raised and the raw payload is read:
  \<open>RawBytes b\<close> (it is \<open>bytes\<close>), \<open>RawB64 b\<close> (it is a \<open>str\<close> that decodes to \<open>b\<close>),
  \<open>RawOther\<close> (neither, nothing is appended), \<open>Unreadable e\<close> (reading or decoding
  raised \<open>e\<close>, which is logged).
\<close>

datatype inline = AsImage bytes | RawBytes bytes | RawB64 bytes | RawOther | Unreadable string

record part =
  p_thought :: bool
  p_text :: "string option"
  p_inline_data :: "inline option"

record rating =
  r_category :: string
  r_probability :: string
  r_blocked :: bool

record candidate =
  c_finish_reason :: "string option"
  c_safety_ratings :: "rating list"

record response =
  parts :: "part list"
  candidates :: "candidate list"

datatype 'p event =
    CreateClient client_kwargs
  | ApiCall "'p request"
  | LogWarning string
  | LogError string

text \<open>
  The collaborators of \<open>generate\<close>: the SDK import (\<open>Some e\<close>: it raises ImportError
  \<open>e\<close>), the helpers of \<open>utils\<close>, the SDK client constructor and the backend call.
  A helper that can raise returns \<open>Inl\<close> of the exception's text. The backend is
  stateful: \<open>generate_content c k r\<close> is the outcome of the call with request \<open>r\<close> made
  after \<open>k\<close> earlier calls of this run.
\<close>

record ('t, 'p, 'c) env =
  sdk_import :: "string option"
  sanitize_url :: "string \<Rightarrow> string + string"
  new_client :: "client_kwargs \<Rightarrow> string + 'c"
  batch_count :: "'t \<Rightarrow> nat"
  tensor_to_pil :: "'t \<Rightarrow> string + 'p list"
  mask_to_pil :: "'t \<Rightarrow> string + 'p option"
  generate_content :: "'c \<Rightarrow> nat \<Rightarrow> 'p request \<Rightarrow> string + response"
  bytes_to_tensor :: "bytes list \<Rightarrow> 't"

definition MODEL_REF_IMAGE_LIMITS :: "(string \<times> (nat \<times> nat)) list" where
  "MODEL_REF_IMAGE_LIMITS =
     [(''gemini-2.5-flash-image'', (0, 3)),
      (''gemini-3-pro-image-preview'', (0, 14))]"

text \<open>
  Modelled from the spec: \<open>validate_ref_images\<close> of the module \<open>utils\<close>, which is not
  among the sources. The spec's \<open>check_reference_count(backend_id, model, count)\<close> fails
  with a constraint violation when the count falls outside the registered inclusive
  \<open>(min, max)\<close> of that model, and imposes nothing on a model absent from the table.
  The count is the number of images of the batch, none when no batch is supplied.
\<close>

definition validate_ref_images ::
  "('t \<Rightarrow> nat) \<Rightarrow> string \<Rightarrow> string \<Rightarrow> 't option \<Rightarrow> (string \<times> (nat \<times> nat)) list \<Rightarrow> exn option" where
  "validate_ref_images count_of backend model refs limits =
     (let n = (case refs of None \<Rightarrow> 0 | Some t \<Rightarrow> count_of t)
      in case map_of limits model of
           None \<Rightarrow> None
         | Some (lo, hi) \<Rightarrow>
             if n < lo \<or> hi < n then Some (ConstraintViolation backend model n) else None)"

text \<open>The \<open>except\<close> branch of the call loop: the exception's text picks the message.\<close>

definition classify_api_error :: "string \<Rightarrow> string \<Rightarrow> exn" where
  "classify_api_error effective_model error_str =
     (if str_in ''401'' error_str \<or> str_in ''UNAUTHENTICATED'' error_str then
        RuntimeError (''[APIImage Gemini] Authentication failed (401). '' @
                      ''Please check your Google API key.'')
      else if str_in ''404'' error_str \<or> str_in ''NOT_FOUND'' error_str then
        RuntimeError (''[APIImage Gemini] Model '' @ [CHR 0x27] @ effective_model @ [CHR 0x27] @
                      '' not found (404).'')
      else if str_in ''403'' error_str \<or> str_in ''PERMISSION_DENIED'' error_str then
        RuntimeError (''[APIImage Gemini] Permission denied (403). '' @
                      ''Check billing at: https://aistudio.google.com'')
      else if str_in ''429'' error_str \<or> str_in ''RESOURCE_EXHAUSTED'' error_str then
        RuntimeError (''[APIImage Gemini] API quota exceeded (429). '' @
                      ''Wait for quota reset or switch to a different model.'')
      else if str_in ''503'' error_str \<or> str_in ''UNAVAILABLE'' error_str then
        RuntimeError ''[APIImage Gemini] Model overloaded (503). Retry in 1-2 minutes.''
      else if str_in ''timed out'' (lower error_str) \<or> str_in ''timeout'' (lower error_str) then
        RuntimeError ''[APIImage Gemini] Network timeout. Check your connection.''
      else RuntimeError (''[APIImage Gemini] API Error: '' @ error_str))"

text \<open>
  The accumulators of the loop: the image buffers, the text messages, the variable
  \<open>response\<close> (unbound before the first call returns) and the events so far.
\<close>

record 'p acc =
  all_images_data :: "bytes list"
  all_text_messages :: "string list"
  last_response :: "response option"
  trace :: "'p event list"

text \<open>One iteration of \<open>for part in response.parts\<close>.\<close>

definition parse_part :: "part \<Rightarrow> 'p acc \<Rightarrow> 'p acc" where
  "parse_part p a =
     (if p_thought p then a
      else case p_text p of
        Some t \<Rightarrow> a\<lparr>all_text_messages := all_text_messages a @ [t]\<rparr>
      | None \<Rightarrow>
         (case p_inline_data p of
            None \<Rightarrow> a
          | Some (AsImage b) \<Rightarrow> a\<lparr>all_images_data := all_images_data a @ [b]\<rparr>
          | Some (RawBytes b) \<Rightarrow> a\<lparr>all_images_data := all_images_data a @ [b]\<rparr>
          | Some (RawB64 b) \<Rightarrow> a\<lparr>all_images_data := all_images_data a @ [b]\<rparr>
          | Some RawOther \<Rightarrow> a
          | Some (Unreadable e) \<Rightarrow>
              a\<lparr>trace := trace a @ [LogError (''[Gemini] Failed to extract image: '' @ e)]\<rparr>))"

definition parse_response :: "response \<Rightarrow> 'p acc \<Rightarrow> 'p acc" where
  "parse_response r a = fold parse_part (parts r) (a\<lparr>last_response := Some r\<rparr>)"

text \<open>
  \<open>for gen_idx in range(num_images)\<close>: \<open>call_loop env c rq n k a\<close> runs the \<open>n\<close>
  remaining iterations, \<open>k\<close> being \<open>gen_idx\<close>. An exception of the backend call leaves
  the loop at once; the events so far are kept beside it.
\<close>

fun call_loop ::
  "('t, 'p, 'c) env \<Rightarrow> 'c \<Rightarrow> 'p request \<Rightarrow> nat \<Rightarrow> nat \<Rightarrow> 'p acc \<Rightarrow> (exn \<times> 'p event list) + 'p acc" where
  "call_loop env c rq 0 k a = Inr a"
| "call_loop env c rq (Suc n) k a =
     (case generate_content env c k rq of
        Inl e \<Rightarrow> Inl (classify_api_error (rq_model rq) e, trace a @ [ApiCall rq])
      | Inr r \<Rightarrow> call_loop env c rq n (Suc k) (parse_response r (a\<lparr>trace := trace a @ [ApiCall rq]\<rparr>)))"

text \<open>The error parts drawn from the candidates of \<open>response\<close>.\<close>

definition candidate_parts :: "candidate \<Rightarrow> string list" where
  "candidate_parts cand =
     (case c_finish_reason cand of
        None \<Rightarrow> []
      | Some reason_str \<Rightarrow>
          if reason_str \<notin> set [''STOP'', ''FinishReason.STOP'']
          then [''Blocked: '' @ reason_str] else []) @
     (let blocked_cats =
            map (\<lambda>r. r_category r @ ''='' @ r_probability r)
                (filter r_blocked (c_safety_ratings cand))
      in if blocked_cats \<noteq> [] then [''Safety: '' @ join '', '' blocked_cats] else [])"

definition error_parts :: "response \<Rightarrow> string list \<Rightarrow> string list" where
  "error_parts r texts =
     (let text_response = (if texts \<noteq> [] then join [CHR 0x0A] texts else []);
          ps = concat (map candidate_parts (candidates r)) @
               (if texts \<noteq> [] then [''Model response: '' @ take 500 text_response] else [])
      in if ps = [] then [''No image data in response''] else ps)"

text \<open>The code after the loop.\<close>

definition finish :: "('t, 'p, 'c) env \<Rightarrow> 'p acc \<Rightarrow> (exn + 't \<times> string) \<times> 'p event list" where
  "finish env a =
     (let text_response =
            (if all_text_messages a \<noteq> [] then join [CHR 0x0A] (all_text_messages a) else [])
      in if all_images_data a = [] then
           (case last_response a of
              None \<Rightarrow> (Inl (UnboundLocalError ''response''), trace a)
            | Some r \<Rightarrow>
                (Inl (RuntimeError (''[APIImage Gemini] Generation failed: '' @
                                    join '' | '' (error_parts r (all_text_messages a)))),
                 trace a))
         else (Inr (bytes_to_tensor env (all_images_data a), text_response), trace a))"

text \<open>\<open>contents\<close>: the prompt, the converted reference images, the converted mask.\<close>

definition ref_contents ::
  "('t, 'p, 'c) env \<Rightarrow> 't option \<Rightarrow> 'p content list \<times> 'p event list" where
  "ref_contents env refs =
     (case refs of
        None \<Rightarrow> ([], [])
      | Some t \<Rightarrow>
          (case tensor_to_pil env t of
             Inr batch_pil \<Rightarrow> (map CImage batch_pil, [])
           | Inl e \<Rightarrow> ([], [LogWarning (''[Gemini] Failed to process ref_images: '' @ e)])))"

definition mask_contents ::
  "('t, 'p, 'c) env \<Rightarrow> 't option \<Rightarrow> 'p content list \<times> 'p event list" where
  "mask_contents env m =
     (case m of
        None \<Rightarrow> ([], [])
      | Some t \<Rightarrow>
          (case mask_to_pil env t of
             Inr (Some mask_pil) \<Rightarrow> ([CImage mask_pil], [])
           | Inr None \<Rightarrow> ([], [])
           | Inl e \<Rightarrow> ([], [LogWarning (''[Gemini] Failed to process mask: '' @ e)])))"

definition build_gen_config :: "string \<Rightarrow> string \<Rightarrow> gen_config" where
  "build_gen_config res ar =
     (let image_size = (if res \<noteq> [] \<and> res \<noteq> ''Default'' then Some res else None);
          aspect = (if ar \<noteq> [] \<and> ar \<noteq> ''Default'' then Some ar else None)
      in \<lparr>response_modalities = [''TEXT'', ''IMAGE''],
          gc_image_config =
            (if image_size = None \<and> aspect = None then None
             else Some \<lparr>ic_image_size = image_size, ic_aspect_ratio = aspect\<rparr>)\<rparr>)"

definition effective_model_of :: "'t gen_request \<Rightarrow> string" where
  "effective_model_of rq =
     (if custom_model rq \<noteq> [] \<and> strip (custom_model rq) \<noteq> []
      then strip (custom_model rq) else model_name rq)"

text \<open>
  \<open>GeminiImageGenerate.generate\<close> up to the call loop: input validation, the SDK
  import, the client, the generation config, the reference-image check and the
  contents. It ends with the exception raised there, or with the client, the request
  of every backend call and the events so far. \<open>import torch\<close> binds the module the
  host has loaded and has no failure branch here; logging at level info is not recorded.
\<close>

definition prepare ::
  "('t, 'p, 'c) env \<Rightarrow> 't gen_request \<Rightarrow> (exn \<times> 'p event list) + ('c \<times> 'p request \<times> 'p event list)" where
  "prepare env rq =
     (if prompt rq = [] \<or> strip (prompt rq) = [] then
        Inl (ValueError (''[APIImage Gemini] Prompt is empty. '' @
           ''Please enter a text prompt describing the image you want to generate.''), [])
      else if api_key rq = [] \<or> strip (api_key rq) = [] then
        Inl (ValueError (''[APIImage Gemini] API Key is not set. '' @
           ''Please provide a valid Google API key (format: AIzaSy...). '' @
           ''Get one at: https://aistudio.google.com/apikey''), [])
      else
        let effective_model = effective_model_of rq in
        case sdk_import env of
          Some e \<Rightarrow>
            Inl (ImportError (''[APIImage Gemini] Missing required package: '' @ e @ ''. '' @
                              ''Please run: pip install google-genai Pillow''), [])
        | None \<Rightarrow>
           (case sanitize_url env (base_url rq) of
              Inl e \<Rightarrow>
                Inl (RuntimeError (''[APIImage Gemini] Failed to create Gemini client: '' @ e @
                                   ''. Please verify your API key is valid.''), [])
            | Inr effective_url \<Rightarrow>
               (let kwargs = \<lparr>ck_api_key = strip (api_key rq),
                               ck_http_base_url =
                                 (if effective_url \<noteq> [] then Some effective_url else None)\<rparr>
                in case new_client env kwargs of
                  Inl e \<Rightarrow>
                    Inl (RuntimeError (''[APIImage Gemini] Failed to create Gemini client: '' @ e @
                                       ''. Please verify your API key is valid.''),
                         [CreateClient kwargs])
                | Inr client \<Rightarrow>
                   (let gconfig = build_gen_config (resolution rq) (aspect_ratio rq) in
                    case validate_ref_images (batch_count env) ''Gemini'' effective_model
                           (ref_images rq) MODEL_REF_IMAGE_LIMITS of
                      Some err \<Rightarrow> Inl (err, [CreateClient kwargs])
                    | None \<Rightarrow>
                       (let (rc, rlog) = ref_contents env (ref_images rq);
                            (mc, mlog) = mask_contents env (mask rq);
                            contents = [CText (prompt rq)] @ rc @ mc
                        in Inr (client,
                                \<lparr>rq_model = effective_model, rq_contents = contents,
                                 rq_config = gconfig\<rparr>,
                                [CreateClient kwargs] @ rlog @ mlog))))))"

text \<open>
  \<open>generate\<close>: the preparation, the call loop over \<open>range(num_images)\<close> and the code
  after it. The result is the raised exception or the returned pair, beside the
  events of the run in order.
\<close>

definition generate ::
  "('t, 'p, 'c) env \<Rightarrow> 't gen_request \<Rightarrow> (exn + 't \<times> string) \<times> 'p event list" where
  "generate env rq =
     (case prepare env rq of
        Inl (err, tr) \<Rightarrow> (Inl err, tr)
      | Inr (client, req, tr) \<Rightarrow>
          (case call_loop env client req (nat (num_images rq)) 0
                  \<lparr>all_images_data = [], all_text_messages = [], last_response = None,
                   trace = tr\<rparr> of
             Inl (err, tr') \<Rightarrow> (Inl err, tr')
           | Inr a \<Rightarrow> finish env a))"

text \<open>The events of a run that are backend calls.\<close>

fun is_api_call :: "'p event \<Rightarrow> bool" where
  "is_api_call (ApiCall r) = True"
| "is_api_call _ = False"

section \<open>Derived notions for the generation node\<close>

text \<open>
  The images and texts that one response contributes, one loop iteration as a function,
  the reference-image count of a request, the keyword arguments of the client, and the
  concrete collaborators and requests at which the properties are evaluated.
\<close>

definition part_images :: "part \<Rightarrow> bytes list" where
  "part_images p =
     (if p_thought p then []
      else case p_text p of
        Some t \<Rightarrow> []
      | None \<Rightarrow>
         (case p_inline_data p of
            Some (AsImage b) \<Rightarrow> [b]
          | Some (RawBytes b) \<Rightarrow> [b]
          | Some (RawB64 b) \<Rightarrow> [b]
          | _ \<Rightarrow> []))"

definition part_texts :: "part \<Rightarrow> string list" where
  "part_texts p =
     (if p_thought p then [] else case p_text p of Some t \<Rightarrow> [t] | None \<Rightarrow> [])"

definition response_images :: "response \<Rightarrow> bytes list" where
  "response_images r = concat (map part_images (parts r))"

definition response_texts :: "response \<Rightarrow> string list" where
  "response_texts r = concat (map part_texts (parts r))"

definition iteration :: "'p request \<Rightarrow> response \<Rightarrow> 'p acc \<Rightarrow> 'p acc" where
  "iteration req r a = parse_response r (a\<lparr>trace := trace a @ [ApiCall req]\<rparr>)"

definition demo_env :: "(nat \<Rightarrow> string + response) \<Rightarrow> (nat list, nat, unit) env" where
  "demo_env backend =
     \<lparr>sdk_import = None,
      sanitize_url = (\<lambda>u. Inr u),
      new_client = (\<lambda>k. Inr ()),
      batch_count = length,
      tensor_to_pil = (\<lambda>t. Inr t),
      mask_to_pil = (\<lambda>t. Inr (case t of [] \<Rightarrow> None | x # xs \<Rightarrow> Some x)),
      generate_content = (\<lambda>c k r. backend k),
      bytes_to_tensor = map length\<rparr>"

definition demo_request :: "nat list gen_request" where
  "demo_request =
     \<lparr>prompt = ''a cat'', api_key = ''k'', model_name = ''gemini-2.5-flash-image'',
      num_images = 2, aspect_ratio = ''Default'', resolution = ''Default'', base_url = [],
      ref_images = None, mask = None, custom_model = [], seed = 0\<rparr>"

definition image_response :: "bytes \<Rightarrow> response" where
  "image_response b =
     \<lparr>parts = [\<lparr>p_thought = False, p_text = None, p_inline_data = Some (AsImage b)\<rparr>],
      candidates = [\<lparr>c_finish_reason = Some ''STOP'', c_safety_ratings = []\<rparr>]\<rparr>"

definition bare_response :: "string \<Rightarrow> response" where
  "bare_response reason =
     \<lparr>parts = [], candidates = [\<lparr>c_finish_reason = Some reason, c_safety_ratings = []\<rparr>]\<rparr>"

definition image_then_error :: "nat \<Rightarrow> string + response" where
  "image_then_error k = (if k = 0 then Inr (image_response ''png'') else Inl ''boom'')"

definition blocked_then_stop :: "nat \<Rightarrow> string + response" where
  "blocked_then_stop k = Inr (bare_response (if k = 0 then ''SAFETY'' else ''STOP''))"

definition two_images :: "nat \<Rightarrow> string + response" where
  "two_images k = Inr (image_response (if k = 0 then ''png0'' else ''png1''))"


definition demo_req :: "nat request" where
  "demo_req = \<lparr>rq_model = ''gemini-2.5-flash-image'', rq_contents = [CText ''a cat''],
               rq_config = \<lparr>response_modalities = [''TEXT'', ''IMAGE''], gc_image_config = None\<rparr>\<rparr>"

definition client_kwargs_of :: "string \<Rightarrow> string \<Rightarrow> client_kwargs" where
  "client_kwargs_of key url =
     \<lparr>ck_api_key = strip key, ck_http_base_url = (if url \<noteq> [] then Some url else None)\<rparr>"

definition failing_codec_env :: "(nat \<Rightarrow> string + response) \<Rightarrow> (nat list, nat, unit) env" where
  "failing_codec_env backend =
     (demo_env backend)\<lparr>tensor_to_pil := (\<lambda>t. Inl ''bad tensor''),
                         mask_to_pil := (\<lambda>t. Inl ''bad mask'')\<rparr>"

definition edit_request :: "nat list \<Rightarrow> nat list gen_request" where
  "edit_request refs = demo_request\<lparr>ref_images := Some refs, mask := Some [7]\<rparr>"

section \<open>Persistent configuration (config.py)\<close>

subsection \<open>JSON values and the Python operations on them\<close>

text \<open>
  What \<open>json.load\<close> returns: \<open>None\<close>, a \<open>bool\<close>, an \<open>int\<close>, a \<open>float\<close> (kept as
  mantissa and binary exponent), a \<open>str\<close>, a \<open>list\<close> or a \<open>dict\<close> with string keys. A
  \<open>dict\<close> is an association list in insertion order: \<open>map_of\<close> looks a key up and
  \<open>AList.update\<close> stores a value, in place for a present key and at the end for a new
  one, as a Python \<open>dict\<close> does.
\<close>

datatype json =
    JNull
  | JBool bool
  | JInt int
  | JFloat int int
  | JStr string
  | JArr "json list"
  | JObj "(string \<times> json) list"

type_synonym dict = "(string \<times> json) list"

datatype py_error = TypeError | AttributeError | KeyError

text \<open>Sequencing of steps that can raise: the first exception ends the sequence.\<close>

definition bind :: "'e + 'a \<Rightarrow> ('a \<Rightarrow> 'e + 'b) \<Rightarrow> 'e + 'b" where
  "bind step rest = (case step of Inr v \<Rightarrow> rest v | Inl err \<Rightarrow> Inl err)"

text \<open>\<open>k in x\<close> for a string \<open>k\<close>: key of a dict, element of a list, substring of a string.\<close>

fun py_in :: "string \<Rightarrow> json \<Rightarrow> py_error + bool" where
  "py_in k (JObj kvs) = Inr (k \<in> set (map fst kvs))"
| "py_in k (JArr xs) = Inr (JStr k \<in> set xs)"
| "py_in k (JStr s) = Inr (str_in k s)"
| "py_in k _ = Inl TypeError"

text \<open>\<open>x[k]\<close> and \<open>x[k] = v\<close> for a string \<open>k\<close>.\<close>

fun py_getitem :: "json \<Rightarrow> string \<Rightarrow> py_error + json" where
  "py_getitem (JObj kvs) k = (case map_of kvs k of None \<Rightarrow> Inl KeyError | Some v \<Rightarrow> Inr v)"
| "py_getitem _ k = Inl TypeError"

fun py_setitem :: "json \<Rightarrow> string \<Rightarrow> json \<Rightarrow> py_error + json" where
  "py_setitem (JObj kvs) k v = Inr (JObj (AList.update k v kvs))"
| "py_setitem _ k v = Inl TypeError"

text \<open>\<open>x.get(k, d)\<close>: only a dict has the method.\<close>

fun py_get :: "json \<Rightarrow> string \<Rightarrow> json \<Rightarrow> py_error + json" where
  "py_get (JObj kvs) k d = Inr (case map_of kvs k of None \<Rightarrow> d | Some v \<Rightarrow> v)"
| "py_get _ k d = Inl AttributeError"

text \<open>
  \<open>x.setdefault(k, d)\<close>: the value under \<open>k\<close>, stored as \<open>d\<close> first when the key is
  missing; the result is that value and the dict after the call.
\<close>

fun py_setdefault :: "json \<Rightarrow> string \<Rightarrow> json \<Rightarrow> py_error + (json \<times> json)" where
  "py_setdefault (JObj kvs) k d =
     (case map_of kvs k of
        None \<Rightarrow> Inr (d, JObj (AList.update k d kvs))
      | Some v \<Rightarrow> Inr (v, JObj kvs))"
| "py_setdefault _ k d = Inl AttributeError"

text \<open>Truth value of an object, and the elements a \<open>for\<close> loop draws from it.\<close>

fun truthy :: "json \<Rightarrow> bool" where
  "truthy JNull = False"
| "truthy (JBool b) = b"
| "truthy (JInt n) = (n \<noteq> 0)"
| "truthy (JFloat m e) = (m \<noteq> 0)"
| "truthy (JStr s) = (s \<noteq> [])"
| "truthy (JArr xs) = (xs \<noteq> [])"
| "truthy (JObj kvs) = (kvs \<noteq> [])"

fun py_iter :: "json \<Rightarrow> py_error + json list" where
  "py_iter (JArr xs) = Inr xs"
| "py_iter (JStr s) = Inr (map (\<lambda>c. JStr [c]) s)"
| "py_iter (JObj kvs) = Inr (map (\<lambda>kv. JStr (fst kv)) kvs)"
| "py_iter _ = Inl TypeError"

text \<open>
  \<open>x == y\<close>. A \<open>bool\<close>, an \<open>int\<close> and a \<open>float\<close> are compared as numbers
  (\<open>True == 1\<close>, \<open>1 == 1.0\<close>), lists element by element, dicts key by key whatever
  the order of insertion; values of different kinds are not equal.
\<close>

fun num_of :: "json \<Rightarrow> (int \<times> int) option" where
  "num_of (JBool b) = Some (if b then 1 else 0, 0)"
| "num_of (JInt n) = Some (n, 0)"
| "num_of (JFloat m e) = Some (m, e)"
| "num_of _ = None"

definition num_eq :: "int \<times> int \<Rightarrow> int \<times> int \<Rightarrow> bool" where
  "num_eq a b =
     (let e = min (snd a) (snd b)
      in fst a * 2 ^ nat (snd a - e) = fst b * 2 ^ nat (snd b - e))"

fun py_eq :: "json \<Rightarrow> json \<Rightarrow> bool" where
  "py_eq (JArr xs) (JArr ys) = list_all2 py_eq xs ys"
| "py_eq (JObj kvs) (JObj kws) =
     (set (map fst kvs) = set (map fst kws) \<and>
      list_all (\<lambda>kv.
        list_all (\<lambda>kw. if fst kv = fst kw then py_eq (snd kv) (snd kw) else True) kws) kvs)"
| "py_eq (JStr s) y = (y = JStr s)"
| "py_eq JNull y = (y = JNull)"
| "py_eq x y =
     (case num_of x of
        None \<Rightarrow> False
      | Some a \<Rightarrow> (case num_of y of None \<Rightarrow> False | Some b \<Rightarrow> num_eq a b))"

subsection \<open>The tables of the module\<close>

definition BUILTIN_MODELS :: "(string \<times> string list) list" where
  "BUILTIN_MODELS =
     [(''Gemini Native'', [''gemini-2.5-flash-image'', ''gemini-3-pro-image-preview'']),
      (''Grok API'', [''grok-imagine-image'', ''grok-imagine-image-pro'']),
      (''OpenAI Compatible'', [''dall-e-3'', ''dall-e-2'', ''gpt-image-1'']),
      (''Qwen Image'', [''qwen-image-plus'', ''qwen-image-edit'']),
      (''GLM Image'', [''glm-image'', ''cogview-4-250304''])]"

definition api_entry :: "string \<Rightarrow> string \<Rightarrow> string \<Rightarrow> json list \<Rightarrow> dict" where
  "api_entry key url model customs =
     [(''api_key'', JStr key), (''base_url'', JStr url), (''model_name'', JStr model),
      (''custom_models'', JArr customs)]"

text \<open>\<open>DEFAULT_CONFIG["api_configs"]\<close> as the module text gives it.\<close>

definition DEFAULT_API_CONFIGS :: "(string \<times> dict) list" where
  "DEFAULT_API_CONFIGS =
     [(''Gemini Native'', api_entry [] ''(SDK - Automatic)'' ''gemini-2.5-flash-image'' []),
      (''Grok API'', api_entry [] ''https://api.x.ai'' ''grok-imagine-image-pro'' []),
      (''OpenAI Compatible'', api_entry [] ''https://api.openai.com'' ''dall-e-3'' []),
      (''Qwen Image'',
         api_entry [] ''https://dashscope.aliyuncs.com/api/v1'' ''qwen-image-plus'' []),
      (''GLM Image'', api_entry [] ''https://open.bigmodel.cn/api'' ''glm-image'' [])]"

subsection \<open>The state: the file and the module's default table\<close>

text \<open>
  The file \<open>api_config.json\<close> is missing, holds a JSON document, or is \<open>Torn\<close>: it
  exists and \<open>json.load\<close> raises on it (it is empty, cut short or not JSON).

  \<open>save_config\<close> opens the file with mode \<open>"w"\<close>, which truncates it, and then writes
  the document. \<open>disk\<close> says how a write ends in this state: it completes, the
  \<open>open\<close> raises and the file stays as it was, or the write stops after the truncation
  and before the document is complete. The document written is always a \<open>dict\<close>, whose
  text ends with its closing brace, so a text cut short is not JSON.

  \<open>defaults\<close> is the value that \<open>DEFAULT_CONFIG["api_configs"]\<close> has now. The module
  only ever makes shallow copies of \<open>DEFAULT_CONFIG\<close>, so a loaded configuration can
  share its dict of backends, its entry dicts or its \<open>custom_models\<close> lists with the
  table, and an assignment or \<open>append\<close> on a shared object changes the table too.
\<close>

datatype file_state = Missing | Torn | Document json

datatype write_outcome = Completes | OpenFails | FailsMidway

record world =
  config_file :: file_state
  disk :: write_outcome
  defaults :: "(string \<times> dict) list"

text \<open>
  What a loaded configuration shares with the table: \<open>AllShared\<close>, the dict of backends
  is the table's own (\<open>DEFAULT_CONFIG.copy()\<close>); \<open>EntriesShared\<close>, the dict of backends
  is a copy whose entries are the table's own; \<open>ListsShared ts\<close>, the entries of the
  backends \<open>ts\<close> are copies whose \<open>custom_models\<close> lists are the table's own.
\<close>

datatype sharing = AllShared | EntriesShared | ListsShared "string list"

definition shares_entry :: "sharing \<Rightarrow> (string \<times> dict) list \<Rightarrow> string \<Rightarrow> bool" where
  "shares_entry sh D t =
     ((sh = AllShared \<or> sh = EntriesShared) \<and> t \<in> set (map fst D))"


definition default_config :: "(string \<times> dict) list \<Rightarrow> json" where
  "default_config D = JObj [(''api_configs'', JObj (map (\<lambda>(t, e). (t, JObj e)) D))]"

text \<open>
  \<open>save_config\<close>: \<open>open(CONFIG_FILE, "w")\<close> truncates the file, \<open>json.dump\<close> then
  writes the document into it; an exception of either is logged and not raised again.
\<close>

definition open_for_write :: "world \<Rightarrow> world option" where
  "open_for_write s =
     (case disk s of OpenFails \<Rightarrow> None | _ \<Rightarrow> Some (s\<lparr>config_file := Torn\<rparr>))"

definition json_dump :: "json \<Rightarrow> world \<Rightarrow> world" where
  "json_dump config s =
     (case disk s of FailsMidway \<Rightarrow> s | _ \<Rightarrow> s\<lparr>config_file := Document config\<rparr>)"

definition save_config :: "json \<Rightarrow> world \<Rightarrow> world" where
  "save_config config s =
     (case open_for_write s of None \<Rightarrow> s | Some s1 \<Rightarrow> json_dump config s1)"

subsection \<open>\<open>load_config\<close>\<close>

text \<open>
  The migration of one present entry \<open>x\<close> against the defaults of its backend: the
  \<open>custom_models\<close> key first, then every key of the defaults.
\<close>

definition fill_key :: "string \<times> json \<Rightarrow> py_error + json \<Rightarrow> py_error + json" where
  "fill_key kv r =
     bind r (\<lambda>x. bind (py_in (fst kv) x)
       (\<lambda>present. if \<not> present then py_setitem x (fst kv) (snd kv) else Inr x))"

definition migrate_entry :: "dict \<Rightarrow> json \<Rightarrow> py_error + json" where
  "migrate_entry dflt x =
     fold fill_key dflt (fill_key (''custom_models'', JArr []) (Inr x))"

text \<open>
  One iteration of \<open>for api_type, defaults in DEFAULT_CONFIG["api_configs"].items()\<close>
  on the configuration \<open>config\<close>; \<open>ts\<close> collects the backends whose entry was copied
  from the defaults.
\<close>

definition migrate_type ::
  "string \<times> dict \<Rightarrow> py_error + (json \<times> string list) \<Rightarrow> py_error + (json \<times> string list)" where
  "migrate_type td r =
     bind r (\<lambda>(config, ts).
       bind (py_getitem config ''api_configs'') (\<lambda>a.
         bind (py_in (fst td) a) (\<lambda>present.
           if \<not> present then
             bind (py_setitem a (fst td) (JObj (snd td))) (\<lambda>a'.
               bind (py_setitem config ''api_configs'' a') (\<lambda>config'.
                 Inr (config', ts @ [fst td])))
           else
             bind (py_getitem a (fst td)) (\<lambda>x.
               bind (migrate_entry (snd td) x) (\<lambda>x'.
                 bind (py_setitem a (fst td) x') (\<lambda>a'.
                   bind (py_setitem config ''api_configs'' a') (\<lambda>config'.
                     Inr (config', ts))))))))"

text \<open>The body of the \<open>try\<close> after \<open>json.load\<close>: \<open>Inl\<close> when it raises.\<close>

definition migrate :: "(string \<times> dict) list \<Rightarrow> json \<Rightarrow> py_error + (json \<times> sharing)" where
  "migrate D config =
     bind (py_in ''api_configs'' config) (\<lambda>present.
       if \<not> present then
         bind (py_setitem config ''api_configs'' (JObj (map (\<lambda>(t, e). (t, JObj e)) D)))
           (\<lambda>config'. Inr (config', EntriesShared))
       else
         bind (fold migrate_type D (Inr (config, [])))
           (\<lambda>(config', ts). Inr (config', ListsShared ts)))"

text \<open>
  \<open>load_config\<close>: the configuration, what it shares with the default table, and the
  state after the call (a missing file is written with the defaults).
\<close>

definition load_config :: "world \<Rightarrow> (json \<times> sharing) \<times> world" where
  "load_config s =
     (case config_file s of
        Missing \<Rightarrow>
          ((default_config (defaults s), AllShared), save_config (default_config (defaults s)) s)
      | Torn \<Rightarrow> ((default_config (defaults s), AllShared), s)
      | Document doc \<Rightarrow>
          (case migrate (defaults s) doc of
             Inl e \<Rightarrow> ((default_config (defaults s), AllShared), s)
           | Inr cs \<Rightarrow> (cs, s)))"

definition get_api_config :: "string \<Rightarrow> world \<Rightarrow> (py_error + json) \<times> world" where
  "get_api_config api_type s =
     (let ((config, sh), s1) = load_config s
      in (bind (py_get config ''api_configs'' (JObj []))
            (\<lambda>a. py_get a api_type (JObj [])), s1))"

subsection \<open>\<open>set_api_config\<close>\<close>

definition blank_entry :: dict where
  "blank_entry = api_entry [] [] [] []"

text \<open>\<open>if value is not None: cfg[key] = value\<close>.\<close>

definition assign_opt :: "string \<Rightarrow> string option \<Rightarrow> json \<Rightarrow> py_error + json" where
  "assign_opt k v cfg = (case v of None \<Rightarrow> Inr cfg | Some x \<Rightarrow> py_setitem cfg k (JStr x))"

text \<open>
  The entry of a value that is a \<open>dict\<close>; it is used on entries that were just assigned
  to, which are dicts.
\<close>

fun dict_of :: "json \<Rightarrow> dict" where
  "dict_of (JObj kvs) = kvs"
| "dict_of _ = []"

text \<open>
  \<open>set_api_config\<close>. The first step makes sure that the backend has an entry and
  says whether the entry object is the default table's own; the second fetches the
  entry, assigns the given fields and stores it back. The result of the steps is the
  entry, the configuration to save and the default table after the assignments. When
  a step raises, nothing was assigned before it and nothing is saved.
\<close>

definition ensure_entry ::
  "string \<Rightarrow> json \<Rightarrow> sharing \<Rightarrow> (string \<times> dict) list \<Rightarrow>
     py_error + (json \<times> (string \<times> dict) list \<times> bool)" where
  "ensure_entry api_type config sh D =
     bind (py_get config ''api_configs'' (JObj [])) (\<lambda>a0.
       bind (py_in api_type a0) (\<lambda>present.
         if present then Inr (config, D, shares_entry sh D api_type)
         else
           let new_entry = (case map_of D api_type of None \<Rightarrow> blank_entry | Some e \<Rightarrow> e) in
           bind (py_setdefault config ''api_configs'' (JObj [])) (\<lambda>(a, config1).
             bind (py_setitem a api_type (JObj new_entry)) (\<lambda>a'.
               bind (py_setitem config1 ''api_configs'' a') (\<lambda>config2.
                 Inr (config2,
                      if sh = AllShared then AList.update api_type new_entry D else D,
                      sh = AllShared))))))"

definition assign_fields ::
  "string \<Rightarrow> string option \<Rightarrow> string option \<Rightarrow> string option \<Rightarrow>
     json \<times> (string \<times> dict) list \<times> bool \<Rightarrow> py_error + (json \<times> json \<times> (string \<times> dict) list)" where
  "assign_fields api_type new_key new_url new_name st =
     (case st of (config, D, shared) \<Rightarrow>
        bind (py_getitem config ''api_configs'') (\<lambda>a.
          bind (py_getitem a api_type) (\<lambda>cfg.
            bind (assign_opt ''api_key'' new_key cfg) (\<lambda>cfg1.
              bind (assign_opt ''base_url'' new_url cfg1) (\<lambda>cfg2.
                bind (assign_opt ''model_name'' new_name cfg2) (\<lambda>cfg3.
                  bind (py_setitem a api_type cfg3) (\<lambda>a'.
                    bind (py_setitem config ''api_configs'' a') (\<lambda>config'.
                      Inr (cfg3, config',
                           if shared then AList.update api_type (dict_of cfg3) D else D)))))))))"

definition set_api_config ::
  "string \<Rightarrow> string option \<Rightarrow> string option \<Rightarrow> string option \<Rightarrow> world \<Rightarrow>
     (py_error + json) \<times> world" where
  "set_api_config api_type new_key new_url new_name s =
     (let ((config, sh), s1) = load_config s
      in case bind (ensure_entry api_type config sh (defaults s1))
                (assign_fields api_type new_key new_url new_name) of
           Inl e \<Rightarrow> (Inl e, s1)
         | Inr (cfg, config', D') \<Rightarrow> (Inr cfg, save_config config' (s1\<lparr>defaults := D'\<rparr>)))"

subsection \<open>The model list and the custom models\<close>

text \<open>
  The loop of \<open>get_model_list\<close>: \<open>if m and m not in all_models: all_models.append(m)\<close>.
  The membership test of a list compares with \<open>==\<close>.
\<close>

definition add_model :: "json \<Rightarrow> json list \<Rightarrow> json list" where
  "add_model m all_models =
     (if truthy m \<and> \<not> list_ex (py_eq m) all_models then all_models @ [m] else all_models)"

definition get_model_list :: "string \<Rightarrow> world \<Rightarrow> (py_error + json list) \<times> world" where
  "get_model_list api_type s =
     (let builtin = (case map_of BUILTIN_MODELS api_type of None \<Rightarrow> [] | Some ms \<Rightarrow> ms);
          (r, s1) = get_api_config api_type s
      in (bind r (\<lambda>cfg.
            bind (py_get cfg ''custom_models'' (JArr [])) (\<lambda>custom.
              bind (py_iter custom) (\<lambda>ms. Inr (fold add_model ms (map JStr builtin))))),
          s1))"







text \<open>Concrete states and documents at which the properties are evaluated.\<close>

definition fresh_world :: "file_state \<Rightarrow> world" where
  "fresh_world f = \<lparr>config_file = f, disk = Completes, defaults = DEFAULT_API_CONFIGS\<rparr>"

definition doc_partial :: json where
  "doc_partial =
     JObj [(''version'', JInt 2),
           (''api_configs'',
            JObj [(''Gemini Native'', JObj [(''api_key'', JStr ''K''), (''note'', JStr ''mine'')])])]"

text \<open>
  The model list as the registry's contract words it: the builtin list, followed by each
  custom model that is not already present, in the order of the custom list.
  \<open>new_models seen ms\<close> are the models of \<open>ms\<close> that are neither in \<open>seen\<close> nor earlier
  in \<open>ms\<close>.
\<close>

fun new_models :: "string list \<Rightarrow> string list \<Rightarrow> string list" where
  "new_models seen [] = []"
| "new_models seen (m # ms) =
     (if m \<in> set seen then new_models seen ms else m # new_models (m # seen) ms)"

definition builtin_models :: "string \<Rightarrow> string list" where
  "builtin_models api_type = (case map_of BUILTIN_MODELS api_type of None \<Rightarrow> [] | Some ms \<Rightarrow> ms)"

definition doc_customs :: json where
  "doc_customs =
     JObj [(''api_configs'',
            JObj [(''Gemini Native'',
                   JObj (api_entry ''K'' ''(SDK - Automatic)'' ''gemini-2.5-flash-image''
                          [JStr ''my-model'', JStr ''gemini-2.5-flash-image'', JStr ''other'']))])]"

definition doc_empty_name :: json where
  "doc_empty_name =
     JObj [(''api_configs'',
            JObj [(''Gemini Native'',
                   JObj (api_entry ''K'' ''(SDK - Automatic)'' ''gemini-2.5-flash-image''
                          [JStr [], JStr ''x'']))])]"

definition interrupted_world :: world where
  "interrupted_world =
     \<lparr>config_file = Document doc_customs, disk = FailsMidway, defaults = DEFAULT_API_CONFIGS\<rparr>"

text \<open>
  Notions for the migration. An entry is settled against the defaults of its backend
  when \<open>custom_models\<close> and every key of the defaults is in it; a configuration is
  settled when it has a dict of backends that holds a settled entry for every backend
  of the table. \<open>filled dflt e\<close> is the dict \<open>e\<close> after the migration of an entry, and
  \<open>entry_next\<close>, \<open>entry_after\<close> relate an entry before and after it. The table is well
  formed when it is not empty, has no backend twice and every entry has
  \<open>custom_models\<close>, as the table of the module text does.
\<close>

definition entry_settled :: "dict \<Rightarrow> json \<Rightarrow> bool" where
  "entry_settled dflt x =
     list_all (\<lambda>k. py_in k x = Inr True) (''custom_models'' # map fst dflt)"

fun settled :: "(string \<times> dict) list \<Rightarrow> json \<Rightarrow> bool" where
  "settled D (JObj kvs) =
     (case map_of kvs ''api_configs'' of
        Some (JObj am) \<Rightarrow>
          list_all (\<lambda>te. case map_of am (fst te) of
                            Some x \<Rightarrow> entry_settled (snd te) x
                          | None \<Rightarrow> False) D
      | _ \<Rightarrow> False)"
| "settled D _ = False"

definition wf_defaults :: "(string \<times> dict) list \<Rightarrow> bool" where
  "wf_defaults D =
     (D \<noteq> [] \<and> distinct (map fst D) \<and>
      list_all (\<lambda>te. ''custom_models'' \<in> set (map fst (snd te))) D)"

definition fill_field :: "string \<times> json \<Rightarrow> dict \<Rightarrow> dict" where
  "fill_field kv e = (if fst kv \<in> set (map fst e) then e else AList.update (fst kv) (snd kv) e)"

definition filled :: "dict \<Rightarrow> dict \<Rightarrow> dict" where
  "filled dflt e = fold fill_field ((''custom_models'', JArr []) # dflt) e"

definition entry_next :: "dict \<Rightarrow> json \<Rightarrow> json \<Rightarrow> bool" where
  "entry_next dflt x x' =
     (case x of JObj e \<Rightarrow> x' = JObj (filled dflt e) | _ \<Rightarrow> x' = x \<and> entry_settled dflt x)"

definition entry_after :: "dict \<Rightarrow> json option \<Rightarrow> json option \<Rightarrow> bool" where
  "entry_after e before after =
     (case before of
        None \<Rightarrow> after = Some (JObj e)
      | Some x \<Rightarrow> (\<exists>x'. after = Some x' \<and> entry_next e x x'))"

definition table_json :: "(string \<times> dict) list \<Rightarrow> dict" where
  "table_json D = map (\<lambda>(t, e). (t, JObj e)) D"

definition doc_partial_migrated :: json where
  "doc_partial_migrated =
     JObj [(''version'', JInt 2),
           (''api_configs'',
            JObj [(''Gemini Native'',
                   JObj [(''api_key'', JStr ''K''), (''note'', JStr ''mine''),
                         (''custom_models'', JArr []),
                         (''base_url'', JStr ''(SDK - Automatic)''),
                         (''model_name'', JStr ''gemini-2.5-flash-image'')]),
                  (''Grok API'',
                   JObj (api_entry [] ''https://api.x.ai'' ''grok-imagine-image-pro'' [])),
                  (''OpenAI Compatible'',
                   JObj (api_entry [] ''https://api.openai.com'' ''dall-e-3'' [])),
                  (''Qwen Image'',
                   JObj (api_entry [] ''https://dashscope.aliyuncs.com/api/v1''
                          ''qwen-image-plus'' [])),
                  (''GLM Image'',
                   JObj (api_entry [] ''https://open.bigmodel.cn/api'' ''glm-image'' []))])]"








text \<open>
  The entry of a backend in a configuration document and in the file of a state, and
  whether the file of a state is a document whose migration raises (\<open>load_config\<close> then
  returns the defaults). \<open>default_entry\<close> is the entry a backend has in the default
  configuration of the module text, the blank entry of \<open>set_api_config\<close> for a backend
  that the table does not have; \<open>default_fields\<close> are the fields the migration fills in:
  those of the table's entry, none for a backend that the table does not have.
\<close>

fun entry_of :: "string \<Rightarrow> json \<Rightarrow> json option" where
  "entry_of api_type (JObj kvs) =
     (case map_of kvs ''api_configs'' of
        Some (JObj am) \<Rightarrow> map_of am api_type
      | _ \<Rightarrow> None)"
| "entry_of api_type _ = None"



definition default_entry :: "string \<Rightarrow> dict" where
  "default_entry api_type =
     (case map_of DEFAULT_API_CONFIGS api_type of None \<Rightarrow> blank_entry | Some e \<Rightarrow> e)"



definition doc_no_key :: json where
  "doc_no_key =
     JObj [(''api_configs'',
            JObj [(''Gemini Native'', JObj [(''base_url'', JStr ''https://proxy.example'')])])]"

definition secret_world :: world where
  "secret_world =
     (snd (set_api_config ''Gemini Native'' (Some ''SECRET'') None None (fresh_world Missing)))
       \<lparr>config_file := Document doc_no_key\<rparr>"

section \<open>Properties of the Gemini generation node\<close>

lemma parse_part_images: "all_images_data (parse_part p a) = all_images_data a @ part_images p"
  by (simp add: parse_part_def part_images_def split: option.splits inline.splits)

lemma parse_part_texts: "all_text_messages (parse_part p a) = all_text_messages a @ part_texts p"
  by (simp add: parse_part_def part_texts_def split: option.splits inline.splits)

lemma parse_part_last: "last_response (parse_part p a) = last_response a"
  by (simp add: parse_part_def split: option.splits inline.splits)

lemma parse_part_calls:
  "filter is_api_call (trace (parse_part p a)) = filter is_api_call (trace a)"
  by (simp add: parse_part_def split: option.splits inline.splits)

lemma fold_parse_part_images:
  "all_images_data (fold parse_part ps a) = all_images_data a @ concat (map part_images ps)"
  by (induction ps arbitrary: a) (simp_all add: parse_part_images)

lemma fold_parse_part_texts:
  "all_text_messages (fold parse_part ps a) = all_text_messages a @ concat (map part_texts ps)"
  by (induction ps arbitrary: a) (simp_all add: parse_part_texts)

lemma fold_parse_part_last: "last_response (fold parse_part ps a) = last_response a"
  by (induction ps arbitrary: a) (simp_all add: parse_part_last)

lemma fold_parse_part_calls:
  "filter is_api_call (trace (fold parse_part ps a)) = filter is_api_call (trace a)"
  by (induction ps arbitrary: a) (simp_all add: parse_part_calls)

lemma iteration_images:
  "all_images_data (iteration req r a) = all_images_data a @ response_images r"
  by (simp add: iteration_def parse_response_def fold_parse_part_images response_images_def)

lemma iteration_texts:
  "all_text_messages (iteration req r a) = all_text_messages a @ response_texts r"
  by (simp add: iteration_def parse_response_def fold_parse_part_texts response_texts_def)

lemma iteration_last: "last_response (iteration req r a) = Some r"
  by (simp add: iteration_def parse_response_def fold_parse_part_last)

lemma iteration_calls:
  "filter is_api_call (trace (iteration req r a)) = filter is_api_call (trace a) @ [ApiCall req]"
  by (simp add: iteration_def parse_response_def fold_parse_part_calls)

lemma fold_iteration_images:
  "all_images_data (fold (iteration req) rs a) = all_images_data a @ concat (map response_images rs)"
  by (induction rs arbitrary: a) (simp_all add: iteration_images)

lemma fold_iteration_texts:
  "all_text_messages (fold (iteration req) rs a) =
     all_text_messages a @ concat (map response_texts rs)"
  by (induction rs arbitrary: a) (simp_all add: iteration_texts)

lemma fold_iteration_last:
  "last_response (fold (iteration req) rs a) = (if rs = [] then last_response a else Some (last rs))"
  by (induction rs arbitrary: a) (simp_all add: iteration_last)

lemma fold_iteration_calls:
  "filter is_api_call (trace (fold (iteration req) rs a)) =
     filter is_api_call (trace a) @ replicate (length rs) (ApiCall req)"
  by (induction rs arbitrary: a) (simp_all add: iteration_calls replicate_append_same)

lemma call_loop_all_return:
  "\<forall>i<length rs. generate_content env c (k + i) req = Inr (rs ! i) \<Longrightarrow>
   call_loop env c req (length rs) k a = Inr (fold (iteration req) rs a)"
proof (induction rs arbitrary: k a)
  case Nil
  then show ?case by simp
next
  case (Cons r rs)
  from Cons.prems have head: "generate_content env c k req = Inr r" by force
  have "\<forall>i<length rs. generate_content env c (Suc k + i) req = Inr (rs ! i)"
  proof (intro allI impI)
    fix i assume "i < length rs"
    with Cons.prems have "generate_content env c (k + Suc i) req = Inr ((r # rs) ! Suc i)"
      by (metis length_Cons Suc_less_eq)
    then show "generate_content env c (Suc k + i) req = Inr (rs ! i)" by simp
  qed
  from Cons.IH [OF this] head show ?case by (simp add: iteration_def)
qed

lemma call_loop_raise:
  "\<forall>i<length rs. generate_content env c (k + i) req = Inr (rs ! i) \<Longrightarrow>
   generate_content env c (k + length rs) req = Inl e \<Longrightarrow>
   call_loop env c req (length rs + Suc m) k a =
     Inl (classify_api_error (rq_model req) e, trace (fold (iteration req) rs a) @ [ApiCall req])"
proof (induction rs arbitrary: k a)
  case Nil
  then show ?case by simp
next
  case (Cons r rs)
  from Cons.prems(1) have head: "generate_content env c k req = Inr r" by force
  have tl: "\<forall>i<length rs. generate_content env c (Suc k + i) req = Inr (rs ! i)"
  proof (intro allI impI)
    fix i assume "i < length rs"
    with Cons.prems(1) have "generate_content env c (k + Suc i) req = Inr ((r # rs) ! Suc i)"
      by (metis length_Cons Suc_less_eq)
    then show "generate_content env c (Suc k + i) req = Inr (rs ! i)" by simp
  qed
  from Cons.prems(2) have "generate_content env c (Suc k + length rs) req = Inl e" by simp
  from Cons.IH [OF tl this] head show ?case by (simp add: iteration_def)
qed

lemma prepare_no_calls:
  "prepare env rq = Inr (c, req, tr) \<Longrightarrow> filter is_api_call tr = []"
  by (auto simp: prepare_def Let_def ref_contents_def mask_contents_def
           split: if_splits option.splits sum.splits prod.splits)

lemma strip_k: "strip ''k'' = ''k''" "strip ''a cat'' = ''a cat''" "strip [] = []"
  by (simp_all add: strip_def isspace_def)

lemma demo_prepare:
  "prepare (demo_env b) demo_request =
     Inr ((), \<lparr>rq_model = ''gemini-2.5-flash-image'', rq_contents = [CText ''a cat''],
               rq_config = \<lparr>response_modalities = [''TEXT'', ''IMAGE''], gc_image_config = None\<rparr>\<rparr>,
          [CreateClient \<lparr>ck_api_key = ''k'', ck_http_base_url = None\<rparr>])"
  by (simp add: prepare_def demo_env_def demo_request_def strip_k effective_model_of_def
        build_gen_config_def validate_ref_images_def MODEL_REF_IMAGE_LIMITS_def
        ref_contents_def mask_contents_def)

lemma generate_all_return:
  assumes "prepare env rq = Inr (c, req, tr0)"
    and "length rs = nat (num_images rq)"
    and "\<forall>i<length rs. generate_content env c i req = Inr (rs ! i)"
  shows "generate env rq =
           finish env (fold (iteration req) rs
             \<lparr>all_images_data = [], all_text_messages = [], last_response = None, trace = tr0\<rparr>)"
proof -
  from assms(3) have "\<forall>i<length rs. generate_content env c (0 + i) req = Inr (rs ! i)" by simp
  from call_loop_all_return [OF this] assms(1,2) show ?thesis
    by (simp add: generate_def)
qed

lemma generate_raise:
  assumes "prepare env rq = Inr (c, req, tr0)"
    and "length rs < nat (num_images rq)"
    and "\<forall>i<length rs. generate_content env c i req = Inr (rs ! i)"
    and "generate_content env c (length rs) req = Inl e"
  shows "generate env rq =
           (Inl (classify_api_error (rq_model req) e),
            trace (fold (iteration req) rs
              \<lparr>all_images_data = [], all_text_messages = [], last_response = None, trace = tr0\<rparr>)
            @ [ApiCall req])"
proof -
  define m where "m = nat (num_images rq) - Suc (length rs)"
  have m: "nat (num_images rq) = length rs + Suc m"
    using assms(2) by (simp add: m_def)
  from assms(3) have a: "\<forall>i<length rs. generate_content env c (0 + i) req = Inr (rs ! i)" by simp
  from assms(4) have b: "generate_content env c (0 + length rs) req = Inl e" by simp
  have "call_loop env c req (nat (num_images rq)) 0
          \<lparr>all_images_data = [], all_text_messages = [], last_response = None, trace = tr0\<rparr> =
        Inl (classify_api_error (rq_model req) e,
             trace (fold (iteration req) rs
               \<lparr>all_images_data = [], all_text_messages = [], last_response = None, trace = tr0\<rparr>)
             @ [ApiCall req])"
    unfolding m by (rule call_loop_raise [OF a b])
  then show ?thesis
    unfolding generate_def assms(1) by simp
qed

lemma finish_fst:
  "fst (finish env a) =
     (if all_images_data a = [] then
        (case last_response a of
           None \<Rightarrow> Inl (UnboundLocalError ''response'')
         | Some r \<Rightarrow> Inl (RuntimeError (''[APIImage Gemini] Generation failed: '' @
                            join '' | '' (error_parts r (all_text_messages a)))))
      else Inr (bytes_to_tensor env (all_images_data a), join [CHR 0x0A] (all_text_messages a)))"
  by (cases "all_text_messages a") (simp_all add: finish_def Let_def split: option.splits)

lemma finish_snd: "snd (finish env a) = trace a"
  by (simp add: finish_def Let_def split: option.splits)

subsection \<open>The call loop\<close>

text \<open>
  C1 (as amended). For a request that passes preparation, with image count \<open>N\<close>: when
  every one of the \<open>N\<close> backend invocations returns, exactly \<open>N\<close> invocations are made,
  one after the other with the same request, and the images of all iterations are
  returned in order when there is at least one, while zero images raise the
  generation-failed error. When an invocation raises after \<open>k\<close> invocations that
  returned, the run stops after exactly \<open>k + 1\<close> invocations and raises the classified
  error of that invocation: the images of the earlier iterations are not returned.
\<close>

theorem generate_loop_outcomes:
  assumes "prepare env rq = Inr (c, req, tr0)"
  shows
    "(length rs = nat (num_images rq) \<and>
      (\<forall>i<length rs. generate_content env c i req = Inr (rs ! i)) \<longrightarrow>
        filter is_api_call (snd (generate env rq)) = replicate (nat (num_images rq)) (ApiCall req) \<and>
        fst (generate env rq) =
          (if concat (map response_images rs) \<noteq> [] then
             Inr (bytes_to_tensor env (concat (map response_images rs)),
                  join [CHR 0x0A] (concat (map response_texts rs)))
           else if rs = [] then Inl (UnboundLocalError ''response'')
           else Inl (RuntimeError (''[APIImage Gemini] Generation failed: '' @
                  join '' | '' (error_parts (last rs) (concat (map response_texts rs))))))) \<and>
     (length rs < nat (num_images rq) \<and>
      (\<forall>i<length rs. generate_content env c i req = Inr (rs ! i)) \<and>
      generate_content env c (length rs) req = Inl e \<longrightarrow>
        filter is_api_call (snd (generate env rq)) = replicate (Suc (length rs)) (ApiCall req) \<and>
        fst (generate env rq) = Inl (classify_api_error (rq_model req) e))"
proof (intro conjI impI)
  assume h: "length rs = nat (num_images rq) \<and>
      (\<forall>i<length rs. generate_content env c i req = Inr (rs ! i))"
  then have g: "generate env rq =
           finish env (fold (iteration req) rs
             \<lparr>all_images_data = [], all_text_messages = [], last_response = None, trace = tr0\<rparr>)"
    using generate_all_return [OF assms] by blast
  show "filter is_api_call (snd (generate env rq)) = replicate (nat (num_images rq)) (ApiCall req)"
    using h by (simp add: g finish_snd fold_iteration_calls prepare_no_calls [OF assms])
  show "fst (generate env rq) =
          (if concat (map response_images rs) \<noteq> [] then
             Inr (bytes_to_tensor env (concat (map response_images rs)),
                  join [CHR 0x0A] (concat (map response_texts rs)))
           else if rs = [] then Inl (UnboundLocalError ''response'')
           else Inl (RuntimeError (''[APIImage Gemini] Generation failed: '' @
                  join '' | '' (error_parts (last rs) (concat (map response_texts rs))))))"
    by (simp add: g finish_fst fold_iteration_images fold_iteration_texts fold_iteration_last)
next
  assume h: "length rs < nat (num_images rq) \<and>
      (\<forall>i<length rs. generate_content env c i req = Inr (rs ! i)) \<and>
      generate_content env c (length rs) req = Inl e"
  then have g: "generate env rq =
           (Inl (classify_api_error (rq_model req) e),
            trace (fold (iteration req) rs
              \<lparr>all_images_data = [], all_text_messages = [], last_response = None, trace = tr0\<rparr>)
            @ [ApiCall req])"
    using generate_raise [OF assms] by blast
  show "filter is_api_call (snd (generate env rq)) = replicate (Suc (length rs)) (ApiCall req)"
    by (simp add: g fold_iteration_calls prepare_no_calls [OF assms] replicate_append_same)
  show "fst (generate env rq) = Inl (classify_api_error (rq_model req) e)"
    by (simp add: g)
qed

lemma demo_prepare':
  "prepare (demo_env b) demo_request =
     Inr ((), demo_req, [CreateClient \<lparr>ck_api_key = ''k'', ck_http_base_url = None\<rparr>])"
  by (simp add: demo_prepare demo_req_def)

lemma demo_num: "nat (num_images demo_request) = 2"
  by (simp add: demo_request_def)

lemma image_response_images: "response_images (image_response b) = [b]"
  by (simp add: response_images_def image_response_def part_images_def)

lemma image_response_texts: "response_texts (image_response b) = []"
  by (simp add: response_texts_def image_response_def part_texts_def)

lemma classify_boom:
  "classify_api_error m ''boom'' = RuntimeError ''[APIImage Gemini] API Error: boom''"
  by (simp add: classify_api_error_def lower_def lower_char_def)

text \<open>The loop at two concrete backends: one returns two images, one fails at its second call.\<close>

theorem generate_loop_outcomes_witness:
  "fst (generate (demo_env two_images) demo_request) =
     Inr (bytes_to_tensor (demo_env two_images) [''png0'', ''png1''], []) \<and>
   filter is_api_call (snd (generate (demo_env two_images) demo_request)) =
     [ApiCall demo_req, ApiCall demo_req] \<and>
   fst (generate (demo_env image_then_error) demo_request) =
     Inl (RuntimeError ''[APIImage Gemini] API Error: boom'') \<and>
   filter is_api_call (snd (generate (demo_env image_then_error) demo_request)) =
     [ApiCall demo_req, ApiCall demo_req]"
proof -
  have ok: "length [image_response ''png0'', image_response ''png1''] = nat (num_images demo_request) \<and>
      (\<forall>i<length [image_response ''png0'', image_response ''png1''].
         generate_content (demo_env two_images) () i demo_req =
           Inr ([image_response ''png0'', image_response ''png1''] ! i))"
    by (simp add: demo_num demo_env_def two_images_def less_Suc_eq numeral_2_eq_2)
  have bad: "length [image_response ''png''] < nat (num_images demo_request) \<and>
      (\<forall>i<length [image_response ''png''].
         generate_content (demo_env image_then_error) () i demo_req =
           Inr ([image_response ''png''] ! i)) \<and>
      generate_content (demo_env image_then_error) () (length [image_response ''png'']) demo_req =
        Inl ''boom''"
    by (simp add: demo_num demo_env_def image_then_error_def)
  from generate_loop_outcomes [OF demo_prepare', of "[image_response ''png0'', image_response ''png1'']" two_images]
    ok
  have a: "filter is_api_call (snd (generate (demo_env two_images) demo_request)) =
        replicate (nat (num_images demo_request)) (ApiCall demo_req) \<and>
      fst (generate (demo_env two_images) demo_request) =
        Inr (bytes_to_tensor (demo_env two_images) [''png0'', ''png1''], [])"
    by (simp add: image_response_images image_response_texts)
  from generate_loop_outcomes [OF demo_prepare', of "[image_response ''png'']" image_then_error "''boom''"]
    bad
  have b: "filter is_api_call (snd (generate (demo_env image_then_error) demo_request)) =
        replicate (Suc (length [image_response ''png''])) (ApiCall demo_req) \<and>
      fst (generate (demo_env image_then_error) demo_request) =
        Inl (classify_api_error (rq_model demo_req) ''boom'')"
    by blast
  from a b show ?thesis
    by (simp add: demo_num classify_boom numeral_2_eq_2)
qed

text \<open>
  C1 as stated fails: with \<open>N = 2\<close>, a first invocation that produced an image and a
  second that raises, \<open>generate\<close> raises the classified error and returns no image.
\<close>

theorem generate_partial_success_counterexample:
  "nat (num_images demo_request) = 2 \<and>
   generate_content (demo_env image_then_error) () 0 demo_req = Inr (image_response ''png'') \<and>
   response_images (image_response ''png'') = [''png''] \<and>
   generate_content (demo_env image_then_error) () 1 demo_req = Inl ''boom'' \<and>
   generate (demo_env image_then_error) demo_request =
     (Inl (RuntimeError ''[APIImage Gemini] API Error: boom''),
      [CreateClient \<lparr>ck_api_key = ''k'', ck_http_base_url = None\<rparr>,
       ApiCall demo_req, ApiCall demo_req])"
  apply (simp add: generate_def demo_prepare' demo_num image_response_images)
  apply (simp add: demo_env_def image_then_error_def image_response_def
      parse_response_def parse_part_def classify_boom numeral_2_eq_2)
  done

subsection \<open>The error after a loop without images\<close>

text \<open>
  C3. With \<open>N = 2\<close>, a first response that carries the finish reason SAFETY and no part,
  and a second response that finished normally without parts, the error raised after
  the loop reports no diagnostic at all: the candidates are read from the last response
  only, so the block reason of the first response is lost.
\<close>

theorem generate_drops_earlier_diagnostics:
  "nat (num_images demo_request) = 2 \<and>
   generate_content (demo_env blocked_then_stop) () 0 demo_req = Inr (bare_response ''SAFETY'') \<and>
   candidate_parts \<lparr>c_finish_reason = Some ''SAFETY'', c_safety_ratings = []\<rparr> = [''Blocked: SAFETY''] \<and>
   generate_content (demo_env blocked_then_stop) () 1 demo_req = Inr (bare_response ''STOP'') \<and>
   fst (generate (demo_env blocked_then_stop) demo_request) =
     Inl (RuntimeError ''[APIImage Gemini] Generation failed: No image data in response'')"
  apply (simp add: generate_def demo_prepare' demo_num candidate_parts_def)
  apply (simp add: demo_env_def blocked_then_stop_def bare_response_def
      parse_response_def finish_def error_parts_def candidate_parts_def numeral_2_eq_2)
  done

lemma strip_empty_imp: "s = [] \<Longrightarrow> strip s = []"
  by (simp add: strip_def)



lemma prepare_reaches_contents:
  assumes "strip (prompt rq) \<noteq> []" and "strip (api_key rq) \<noteq> []"
    and "sdk_import env = None"
    and "sanitize_url env (base_url rq) = Inr u"
    and "new_client env (client_kwargs_of (api_key rq) u) = Inr c"
  shows "prepare env rq =
    (case validate_ref_images (batch_count env) ''Gemini'' (effective_model_of rq)
            (ref_images rq) MODEL_REF_IMAGE_LIMITS of
       Some err \<Rightarrow> Inl (err, [CreateClient (client_kwargs_of (api_key rq) u)])
     | None \<Rightarrow>
        Inr (c,
          \<lparr>rq_model = effective_model_of rq,
           rq_contents = [CText (prompt rq)] @ fst (ref_contents env (ref_images rq)) @
                         fst (mask_contents env (mask rq)),
           rq_config = build_gen_config (resolution rq) (aspect_ratio rq)\<rparr>,
          [CreateClient (client_kwargs_of (api_key rq) u)] @
            snd (ref_contents env (ref_images rq)) @ snd (mask_contents env (mask rq))))"
proof -
  from assms(1) have p: "prompt rq \<noteq> []" using strip_empty_imp by blast
  from assms(2) have k: "api_key rq \<noteq> []" using strip_empty_imp by blast
  show ?thesis
    using assms p k
    by (simp add: prepare_def Let_def client_kwargs_of_def split: option.splits prod.splits)
qed






subsection \<open>The reference-image check\<close>


lemma edit_effective_model:
  "effective_model_of (edit_request refs) = ''gemini-2.5-flash-image''"
  by (simp add: effective_model_of_def edit_request_def demo_request_def)

lemma edit_limits:
  "map_of MODEL_REF_IMAGE_LIMITS (effective_model_of (edit_request refs)) = Some (0, 3)"
  by (simp add: edit_effective_model MODEL_REF_IMAGE_LIMITS_def)


lemma edit_strip:
  "strip (prompt (edit_request refs)) = ''a cat''" "strip (api_key (edit_request refs)) = ''k''"
  by (simp_all add: edit_request_def demo_request_def strip_def isspace_def)



subsection \<open>Input validation before any client or call\<close>

text \<open>
  C2. A request whose prompt is empty or only whitespace, or whose API key is empty or
  only whitespace, makes \<open>generate\<close> raise a ValueError (the InvalidInput kind) with no
  event at all before it: no client is constructed and no backend call is made.
\<close>

theorem generate_blank_input_fails_first:
  assumes "prompt rq = [] \<or> strip (prompt rq) = [] \<or> api_key rq = [] \<or> strip (api_key rq) = []"
  shows "\<exists>msg. generate env rq = (Inl (ValueError msg), [])"
  using assms by (auto simp: generate_def prepare_def)

text \<open>A prompt of two spaces, and an empty API key.\<close>

theorem generate_blank_input_fails_first_witness:
  "strip (prompt (demo_request\<lparr>prompt := ''  ''\<rparr>)) = [] \<and>
   generate (demo_env two_images) (demo_request\<lparr>prompt := ''  ''\<rparr>) =
     (Inl (ValueError (''[APIImage Gemini] Prompt is empty. '' @
        ''Please enter a text prompt describing the image you want to generate.'')), []) \<and>
   strip (api_key (demo_request\<lparr>api_key := []\<rparr>)) = [] \<and>
   (\<exists>msg. generate (demo_env two_images) (demo_request\<lparr>api_key := []\<rparr>) =
     (Inl (ValueError msg), []))"
proof -
  have a: "strip (prompt (demo_request\<lparr>prompt := ''  ''\<rparr>)) = []"
    by (simp add: strip_def isspace_def)
  have b: "strip (api_key (demo_request\<lparr>api_key := []\<rparr>)) = []"
    by (simp add: strip_def)
  from generate_blank_input_fails_first [of "demo_request\<lparr>prompt := ''  ''\<rparr>" "demo_env two_images"] a
  obtain msg where m: "generate (demo_env two_images) (demo_request\<lparr>prompt := ''  ''\<rparr>) =
     (Inl (ValueError msg), [])" by blast
  have "generate (demo_env two_images) (demo_request\<lparr>prompt := ''  ''\<rparr>) =
     (Inl (ValueError (''[APIImage Gemini] Prompt is empty. '' @
        ''Please enter a text prompt describing the image you want to generate.'')), [])"
    using a by (simp add: generate_def prepare_def)
  moreover from generate_blank_input_fails_first [of "demo_request\<lparr>api_key := []\<rparr>" "demo_env two_images"] b
  have "\<exists>msg. generate (demo_env two_images) (demo_request\<lparr>api_key := []\<rparr>) =
     (Inl (ValueError msg), [])" by blast
  ultimately show ?thesis using a b by blast
qed

subsection \<open>Conversion failures of the reference images and the mask\<close>

text \<open>
  C10. When the conversion of the reference images, or of the mask, raises, the
  preparation still succeeds: the failed input is left out of the request contents, a
  warning is logged, and the loop runs with that request; when the backend calls return
  at least one image, \<open>generate\<close> returns the images and the text of the responses.
\<close>

theorem conversion_failures_are_swallowed:
  assumes "strip (prompt rq) \<noteq> []" and "strip (api_key rq) \<noteq> []"
    and "sdk_import env = None"
    and "sanitize_url env (base_url rq) = Inr u"
    and "new_client env (client_kwargs_of (api_key rq) u) = Inr c"
    and "validate_ref_images (batch_count env) ''Gemini'' (effective_model_of rq)
           (ref_images rq) MODEL_REF_IMAGE_LIMITS = None"
  shows "\<exists>req tr. prepare env rq = Inr (c, req, tr) \<and>
     (\<forall>t e. ref_images rq = Some t \<and> tensor_to_pil env t = Inl e \<longrightarrow>
        rq_contents req = CText (prompt rq) # fst (mask_contents env (mask rq)) \<and>
        LogWarning (''[Gemini] Failed to process ref_images: '' @ e) \<in> set tr) \<and>
     (\<forall>t e. mask rq = Some t \<and> mask_to_pil env t = Inl e \<longrightarrow>
        rq_contents req = CText (prompt rq) # fst (ref_contents env (ref_images rq)) \<and>
        LogWarning (''[Gemini] Failed to process mask: '' @ e) \<in> set tr) \<and>
     (\<forall>rs. length rs = nat (num_images rq) \<and>
        (\<forall>i<length rs. generate_content env c i req = Inr (rs ! i)) \<longrightarrow>
          filter is_api_call (snd (generate env rq)) =
            replicate (nat (num_images rq)) (ApiCall req) \<and>
          (concat (map response_images rs) \<noteq> [] \<longrightarrow>
             fst (generate env rq) =
               Inr (bytes_to_tensor env (concat (map response_images rs)),
                    join [CHR 0x0A] (concat (map response_texts rs)))))"
proof -
  define req where "req =
    \<lparr>rq_model = effective_model_of rq,
     rq_contents = [CText (prompt rq)] @ fst (ref_contents env (ref_images rq)) @
                   fst (mask_contents env (mask rq)),
     rq_config = build_gen_config (resolution rq) (aspect_ratio rq)\<rparr>"
  define tr where "tr = [CreateClient (client_kwargs_of (api_key rq) u)] @
            snd (ref_contents env (ref_images rq)) @ snd (mask_contents env (mask rq))"
  have p: "prepare env rq = Inr (c, req, tr)"
    using prepare_reaches_contents [OF assms(1-5)] assms(6) by (simp add: req_def tr_def)
  have r: "\<forall>t e. ref_images rq = Some t \<and> tensor_to_pil env t = Inl e \<longrightarrow>
        rq_contents req = CText (prompt rq) # fst (mask_contents env (mask rq)) \<and>
        LogWarning (''[Gemini] Failed to process ref_images: '' @ e) \<in> set tr"
    by (simp add: req_def tr_def ref_contents_def)
  have m: "\<forall>t e. mask rq = Some t \<and> mask_to_pil env t = Inl e \<longrightarrow>
        rq_contents req = CText (prompt rq) # fst (ref_contents env (ref_images rq)) \<and>
        LogWarning (''[Gemini] Failed to process mask: '' @ e) \<in> set tr"
    by (simp add: req_def tr_def mask_contents_def)
  have g: "\<forall>rs. length rs = nat (num_images rq) \<and>
        (\<forall>i<length rs. generate_content env c i req = Inr (rs ! i)) \<longrightarrow>
          filter is_api_call (snd (generate env rq)) =
            replicate (nat (num_images rq)) (ApiCall req) \<and>
          (concat (map response_images rs) \<noteq> [] \<longrightarrow>
             fst (generate env rq) =
               Inr (bytes_to_tensor env (concat (map response_images rs)),
                    join [CHR 0x0A] (concat (map response_texts rs))))"
  proof (intro allI impI)
    fix rs
    assume h: "length rs = nat (num_images rq) \<and>
        (\<forall>i<length rs. generate_content env c i req = Inr (rs ! i))"
    then have e: "generate env rq =
           finish env (fold (iteration req) rs
             \<lparr>all_images_data = [], all_text_messages = [], last_response = None, trace = tr\<rparr>)"
      using generate_all_return [OF p] by blast
    show "filter is_api_call (snd (generate env rq)) =
            replicate (nat (num_images rq)) (ApiCall req) \<and>
          (concat (map response_images rs) \<noteq> [] \<longrightarrow>
             fst (generate env rq) =
               Inr (bytes_to_tensor env (concat (map response_images rs)),
                    join [CHR 0x0A] (concat (map response_texts rs))))"
      using h
      by (simp add: e finish_snd finish_fst fold_iteration_calls fold_iteration_images
          fold_iteration_texts prepare_no_calls [OF p])
  qed
  from p r m g show ?thesis by blast
qed

lemma failing_codec_fields:
  "sdk_import (failing_codec_env b) = None"
  "sanitize_url (failing_codec_env b) x = Inr x"
  "new_client (failing_codec_env b) kw = Inr ()"
  "batch_count (failing_codec_env b) = length"
  "tensor_to_pil (failing_codec_env b) t = Inl ''bad tensor''"
  "mask_to_pil (failing_codec_env b) t = Inl ''bad mask''"
  "generate_content (failing_codec_env b) c k r = b k"
  "bytes_to_tensor (failing_codec_env b) = map length"
  by (simp_all add: failing_codec_env_def demo_env_def)

text \<open>Both conversions fail; the request carries the prompt alone and two images come back.\<close>

theorem conversion_failures_are_swallowed_witness:
  "ref_images (edit_request [10, 20]) = Some [10, 20] \<and>
   tensor_to_pil (failing_codec_env two_images) [10, 20] = Inl ''bad tensor'' \<and>
   mask (edit_request [10, 20]) = Some [7] \<and>
   mask_to_pil (failing_codec_env two_images) [7] = Inl ''bad mask'' \<and>
   (\<exists>req tr. prepare (failing_codec_env two_images) (edit_request [10, 20]) = Inr ((), req, tr) \<and>
      rq_contents req = [CText ''a cat''] \<and>
      LogWarning ''[Gemini] Failed to process ref_images: bad tensor'' \<in> set tr \<and>
      LogWarning ''[Gemini] Failed to process mask: bad mask'' \<in> set tr \<and>
      filter is_api_call (snd (generate (failing_codec_env two_images) (edit_request [10, 20]))) =
        [ApiCall req, ApiCall req]) \<and>
   fst (generate (failing_codec_env two_images) (edit_request [10, 20])) =
     Inr ([4, 4], [])"
proof -
  let ?env = "failing_codec_env two_images"
  let ?rq = "edit_request [10, 20]"
  let ?rs = "[image_response ''png0'', image_response ''png1'']"
  have f: "ref_images ?rq = Some [10, 20]" "mask ?rq = Some [7]"
      "prompt ?rq = ''a cat''" "nat (num_images ?rq) = 2"
    by (simp_all add: edit_request_def demo_request_def)
  have v: "validate_ref_images (batch_count ?env) ''Gemini'' (effective_model_of ?rq)
           (ref_images ?rq) MODEL_REF_IMAGE_LIMITS = None"
    by (simp add: validate_ref_images_def edit_limits failing_codec_fields f)
  have mc: "fst (mask_contents ?env (mask ?rq)) = []"
    by (simp add: mask_contents_def f failing_codec_fields)
  have im: "concat (map response_images ?rs) = [''png0'', ''png1'']"
    "concat (map response_texts ?rs) = []"
    by (simp_all add: image_response_images image_response_texts)
  have p1: "strip (prompt ?rq) \<noteq> []" and p2: "strip (api_key ?rq) \<noteq> []"
    by (simp_all add: edit_strip)
  have p3: "sdk_import ?env = None" by (simp add: failing_codec_fields)
  have p4: "sanitize_url ?env (base_url ?rq) = Inr []"
    by (simp add: failing_codec_fields edit_request_def demo_request_def)
  have p5: "new_client ?env (client_kwargs_of (api_key ?rq) []) = Inr ()"
    by (simp add: failing_codec_fields)
  from conversion_failures_are_swallowed [OF p1 p2 p3 p4 p5 v]
  obtain req tr where p: "prepare ?env ?rq = Inr ((), req, tr)"
    and r: "\<forall>t e. ref_images ?rq = Some t \<and> tensor_to_pil ?env t = Inl e \<longrightarrow>
        rq_contents req = CText (prompt ?rq) # fst (mask_contents ?env (mask ?rq)) \<and>
        LogWarning (''[Gemini] Failed to process ref_images: '' @ e) \<in> set tr"
    and m: "\<forall>t e. mask ?rq = Some t \<and> mask_to_pil ?env t = Inl e \<longrightarrow>
        rq_contents req = CText (prompt ?rq) # fst (ref_contents ?env (ref_images ?rq)) \<and>
        LogWarning (''[Gemini] Failed to process mask: '' @ e) \<in> set tr"
    and g: "\<forall>rs. length rs = nat (num_images ?rq) \<and>
        (\<forall>i<length rs. generate_content ?env () i req = Inr (rs ! i)) \<longrightarrow>
          filter is_api_call (snd (generate ?env ?rq)) =
            replicate (nat (num_images ?rq)) (ApiCall req) \<and>
          (concat (map response_images rs) \<noteq> [] \<longrightarrow>
             fst (generate ?env ?rq) =
               Inr (bytes_to_tensor ?env (concat (map response_images rs)),
                    join [CHR 0x0A] (concat (map response_texts rs))))"
    by blast
  from r have r': "rq_contents req = [CText ''a cat''] \<and>
      LogWarning ''[Gemini] Failed to process ref_images: bad tensor'' \<in> set tr"
    using mc by (simp add: f failing_codec_fields)
  from m have m': "LogWarning ''[Gemini] Failed to process mask: bad mask'' \<in> set tr"
    by (simp add: f failing_codec_fields)
  have "length ?rs = nat (num_images ?rq) \<and>
        (\<forall>i<length ?rs. generate_content ?env () i req = Inr (?rs ! i))"
    by (simp add: f failing_codec_fields two_images_def less_Suc_eq numeral_2_eq_2)
  with g have g': "filter is_api_call (snd (generate ?env ?rq)) =
            replicate (nat (num_images ?rq)) (ApiCall req) \<and>
          (concat (map response_images ?rs) \<noteq> [] \<longrightarrow>
             fst (generate ?env ?rq) =
               Inr (bytes_to_tensor ?env (concat (map response_images ?rs)),
                    join [CHR 0x0A] (concat (map response_texts ?rs))))"
    by blast
  then have c: "filter is_api_call (snd (generate ?env ?rq)) = [ApiCall req, ApiCall req]"
    by (simp add: f numeral_2_eq_2)
  from g' have d: "fst (generate ?env ?rq) = Inr ([4, 4], [])"
    by (simp add: image_response_images image_response_texts failing_codec_fields)
  from p r' m' c d f show ?thesis
    by (auto simp: failing_codec_fields)
qed

section \<open>Properties of the configuration store\<close>

lemma set_new_models: "set (new_models seen ms) = set ms - set seen"
  by (induction ms arbitrary: seen) auto

lemma distinct_new_models: "distinct (new_models seen ms)"
  by (induction ms arbitrary: seen) (auto simp: set_new_models)

lemma filter_new_models:
  "distinct ms \<Longrightarrow> new_models seen ms = filter (\<lambda>m. m \<notin> set seen) ms"
proof (induction ms arbitrary: seen)
  case Nil
  then show ?case by simp
next
  case (Cons m ms)
  have "filter (\<lambda>x. x \<notin> set (m # seen)) ms = filter (\<lambda>x. x \<notin> set seen) ms"
    using Cons.prems by (auto intro: filter_cong)
  with Cons show ?case by simp
qed

lemma new_models_cong:
  "set seen = set seen' \<Longrightarrow> new_models seen ms = new_models seen' ms"
proof (induction ms arbitrary: seen seen')
  case Nil
  then show ?case by simp
next
  case (Cons m ms)
  from Cons.prems have "set (m # seen) = set (m # seen')" by simp
  from Cons.IH [OF this] Cons.IH [OF Cons.prems] Cons.prems show ?case by simp
qed

lemma py_eq_JStr [simp]: "py_eq (JStr a) y = (y = JStr a)"
  by (cases y) simp_all

lemma list_ex_py_eq_JStr: "list_ex (py_eq (JStr m)) (map JStr acc) = (m \<in> set acc)"
  by (auto simp: list_ex_iff)

text \<open>The loop over a list of strings: empty strings and strings already present are skipped.\<close>

lemma fold_add_model:
  "fold add_model (map JStr ms) (map JStr acc) =
     map JStr (acc @ new_models acc (filter (\<lambda>m. m \<noteq> []) ms))"
proof (induction ms arbitrary: acc)
  case Nil
  then show ?case by simp
next
  case (Cons m ms)
  show ?case
  proof (cases "m = [] \<or> m \<in> set acc")
    case True
    then have "add_model (JStr m) (map JStr acc) = map JStr acc"
      by (auto simp: add_model_def list_ex_py_eq_JStr)
    with Cons.IH [of acc] True show ?thesis by auto
  next
    case False
    then have "add_model (JStr m) (map JStr acc) = map JStr (acc @ [m])"
      by (simp add: add_model_def list_ex_py_eq_JStr)
    moreover have "new_models (acc @ [m]) (filter (\<lambda>m. m \<noteq> []) ms) =
        new_models (m # acc) (filter (\<lambda>m. m \<noteq> []) ms)"
      by (rule new_models_cong) simp
    ultimately show ?thesis using Cons.IH [of "acc @ [m]"] False by simp
  qed
qed

lemma builtin_models_distinct: "distinct (builtin_models api_type)"
  by (simp add: builtin_models_def BUILTIN_MODELS_def)

subsection \<open>The effective model list\<close>

text \<open>
  A file in which the custom models of a backend begin with the empty string:
  \<open>get_model_list\<close> leaves the empty string out, so that its result is not the builtin
  list followed by each persisted custom model that is not already present.
\<close>

theorem get_model_list_empty_name_counterexample:
  "fst (get_model_list ''Gemini Native'' (fresh_world (Document doc_empty_name))) =
     Inr [JStr ''gemini-2.5-flash-image'', JStr ''gemini-3-pro-image-preview'', JStr ''x''] \<and>
   map JStr (builtin_models ''Gemini Native'' @
       new_models (builtin_models ''Gemini Native'') [[], ''x'']) =
     [JStr ''gemini-2.5-flash-image'', JStr ''gemini-3-pro-image-preview'', JStr [],
      JStr ''x''] \<and>
   fst (get_model_list ''Gemini Native'' (fresh_world (Document doc_empty_name))) \<noteq>
     Inr (map JStr (builtin_models ''Gemini Native'' @
       new_models (builtin_models ''Gemini Native'') [[], ''x'']))"
  by (simp add: get_model_list_def get_api_config_def load_config_def fresh_world_def
      doc_empty_name_def migrate_def bind_def DEFAULT_API_CONFIGS_def migrate_type_def
      migrate_entry_def fill_key_def api_entry_def BUILTIN_MODELS_def builtin_models_def
      add_model_def)

text \<open>
  C7. For every backend whose loaded entry holds the custom models \<open>custom\<close>,
  \<open>get_model_list\<close> returns the builtin list followed by each custom model that is
  not the empty string and not already present, in the order of the custom list (for
  a custom list without duplicates these are the non-empty custom models that are not
  builtin, in their order); the result has no duplicates and the builtins come first.
\<close>

theorem get_model_list_effective:
  assumes "get_api_config api_type s = (Inr cfg, s1)"
    and "py_get cfg ''custom_models'' (JArr []) = Inr (JArr (map JStr custom))"
  shows "fst (get_model_list api_type s) =
           Inr (map JStr (builtin_models api_type @
             new_models (builtin_models api_type) (filter (\<lambda>m. m \<noteq> []) custom))) \<and>
         distinct (builtin_models api_type @
             new_models (builtin_models api_type) (filter (\<lambda>m. m \<noteq> []) custom)) \<and>
         set (new_models (builtin_models api_type) (filter (\<lambda>m. m \<noteq> []) custom)) =
           {m \<in> set custom. m \<noteq> []} - set (builtin_models api_type) \<and>
         (distinct custom \<longrightarrow>
            new_models (builtin_models api_type) (filter (\<lambda>m. m \<noteq> []) custom) =
              filter (\<lambda>m. m \<noteq> [] \<and> m \<notin> set (builtin_models api_type)) custom)"
proof -
  let ?c = "filter (\<lambda>m. m \<noteq> []) custom"
  have "fst (get_model_list api_type s) =
          Inr (fold add_model (map JStr custom) (map JStr (builtin_models api_type)))"
    using assms(1,2)
    by (simp add: get_model_list_def builtin_models_def bind_def Let_def)
  then have a: "fst (get_model_list api_type s) =
      Inr (map JStr (builtin_models api_type @ new_models (builtin_models api_type) ?c))"
    by (simp add: fold_add_model)
  have b: "distinct (builtin_models api_type @ new_models (builtin_models api_type) ?c)"
    by (auto simp: builtin_models_distinct distinct_new_models set_new_models)
  have c: "set (new_models (builtin_models api_type) ?c) =
      {m \<in> set custom. m \<noteq> []} - set (builtin_models api_type)"
    by (auto simp: set_new_models)
  have d: "distinct custom \<longrightarrow>
      new_models (builtin_models api_type) ?c =
        filter (\<lambda>m. m \<noteq> [] \<and> m \<notin> set (builtin_models api_type)) custom"
  proof
    assume "distinct custom"
    then have "distinct ?c" by simp
    from filter_new_models [OF this, of "builtin_models api_type"]
    show "new_models (builtin_models api_type) ?c =
        filter (\<lambda>m. m \<noteq> [] \<and> m \<notin> set (builtin_models api_type)) custom"
      by (simp add: conj_commute)
  qed
  from a b c d show ?thesis by (intro conjI)
qed

lemma load_doc_customs:
  "get_api_config ''Gemini Native'' (fresh_world (Document doc_customs)) =
     (Inr (JObj (api_entry ''K'' ''(SDK - Automatic)'' ''gemini-2.5-flash-image''
            [JStr ''my-model'', JStr ''gemini-2.5-flash-image'', JStr ''other''])),
      fresh_world (Document doc_customs))"
  by (simp add: get_api_config_def load_config_def fresh_world_def doc_customs_def migrate_def
      bind_def DEFAULT_API_CONFIGS_def migrate_type_def migrate_entry_def fill_key_def
      api_entry_def)

lemma load_doc_empty_name:
  "get_api_config ''Gemini Native'' (fresh_world (Document doc_empty_name)) =
     (Inr (JObj (api_entry ''K'' ''(SDK - Automatic)'' ''gemini-2.5-flash-image''
            [JStr [], JStr ''x''])),
      fresh_world (Document doc_empty_name))"
  by (simp add: get_api_config_def load_config_def fresh_world_def doc_empty_name_def
      migrate_def bind_def DEFAULT_API_CONFIGS_def migrate_type_def migrate_entry_def
      fill_key_def api_entry_def)

text \<open>
  A custom list that repeats a builtin model, and one that begins with the empty string.
\<close>

theorem get_model_list_effective_witness:
  "fst (get_model_list ''Gemini Native'' (fresh_world (Document doc_customs))) =
     Inr [JStr ''gemini-2.5-flash-image'', JStr ''gemini-3-pro-image-preview'',
          JStr ''my-model'', JStr ''other''] \<and>
   fst (get_model_list ''Gemini Native'' (fresh_world (Document doc_empty_name))) =
     Inr [JStr ''gemini-2.5-flash-image'', JStr ''gemini-3-pro-image-preview'', JStr ''x'']"
proof -
  have c: "py_get (JObj (api_entry ''K'' ''(SDK - Automatic)'' ''gemini-2.5-flash-image''
            [JStr ''my-model'', JStr ''gemini-2.5-flash-image'', JStr ''other'']))
          ''custom_models'' (JArr []) =
        Inr (JArr (map JStr [''my-model'', ''gemini-2.5-flash-image'', ''other'']))"
    by (simp add: api_entry_def)
  have e: "py_get (JObj (api_entry ''K'' ''(SDK - Automatic)'' ''gemini-2.5-flash-image''
            [JStr [], JStr ''x'']))
          ''custom_models'' (JArr []) =
        Inr (JArr (map JStr [[], ''x'']))"
    by (simp add: api_entry_def)
  have b: "builtin_models ''Gemini Native'' =
      [''gemini-2.5-flash-image'', ''gemini-3-pro-image-preview'']"
    by (simp add: builtin_models_def BUILTIN_MODELS_def)
  from get_model_list_effective [OF load_doc_customs c]
  have 1: "fst (get_model_list ''Gemini Native'' (fresh_world (Document doc_customs))) =
      Inr (map JStr (builtin_models ''Gemini Native'' @
        new_models (builtin_models ''Gemini Native'')
          (filter (\<lambda>m. m \<noteq> []) [''my-model'', ''gemini-2.5-flash-image'', ''other''])))"
    by blast
  from get_model_list_effective [OF load_doc_empty_name e]
  have 2: "fst (get_model_list ''Gemini Native'' (fresh_world (Document doc_empty_name))) =
      Inr (map JStr (builtin_models ''Gemini Native'' @
        new_models (builtin_models ''Gemini Native'')
          (filter (\<lambda>m. m \<noteq> []) [[], ''x''])))"
    by blast
  from 1 2 show ?thesis by (simp add: b)
qed

subsection \<open>Saving the configuration\<close>

text \<open>
  C5 (as amended). \<open>save_config\<close> rewrites the file in place. A save that completes
  leaves the new configuration in the file, and the next load reads it; a save whose
  \<open>open\<close> fails leaves the state as it was; a save that stops after the truncation
  leaves a file that cannot be parsed, and the next load returns the defaults, not the
  configuration that was persisted before.
\<close>

theorem save_config_outcomes:
  "(disk s = Completes \<longrightarrow>
      config_file (save_config config s) = Document config \<and>
      fst (load_config (save_config config s)) =
        (case migrate (defaults s) config of
           Inl e \<Rightarrow> (default_config (defaults s), AllShared) | Inr cs \<Rightarrow> cs)) \<and>
   (disk s = OpenFails \<longrightarrow> save_config config s = s) \<and>
   (disk s = FailsMidway \<longrightarrow>
      config_file (save_config config s) = Torn \<and>
      fst (load_config (save_config config s)) = (default_config (defaults s), AllShared))"
  by (simp add: save_config_def open_for_write_def json_dump_def load_config_def
      split: sum.splits)

text \<open>The three ways a write can end.\<close>

theorem save_config_outcomes_witness:
  "disk (fresh_world Torn) = Completes \<and>
   config_file (save_config doc_customs (fresh_world Torn)) = Document doc_customs \<and>
   disk ((fresh_world Torn)\<lparr>disk := OpenFails\<rparr>) = OpenFails \<and>
   save_config doc_customs ((fresh_world Torn)\<lparr>disk := OpenFails\<rparr>) =
     (fresh_world Torn)\<lparr>disk := OpenFails\<rparr> \<and>
   disk interrupted_world = FailsMidway \<and>
   config_file (save_config doc_partial interrupted_world) = Torn"
  using save_config_outcomes [of "fresh_world Torn" doc_customs]
    save_config_outcomes [of "(fresh_world Torn)\<lparr>disk := OpenFails\<rparr>" doc_customs]
    save_config_outcomes [of interrupted_world doc_partial]
  by (simp add: fresh_world_def interrupted_world_def)

text \<open>
  C5 as stated fails: a file that holds a configuration with a saved key and custom
  models is truncated by a save that stops midway, and the next load returns the
  defaults.
\<close>

theorem save_config_interrupted_counterexample:
  "config_file interrupted_world = Document doc_customs \<and>
   fst (fst (load_config interrupted_world)) \<noteq> default_config DEFAULT_API_CONFIGS \<and>
   config_file (save_config doc_partial interrupted_world) = Torn \<and>
   fst (fst (load_config (save_config doc_partial interrupted_world))) =
     default_config DEFAULT_API_CONFIGS"
  by (simp add: interrupted_world_def save_config_def open_for_write_def json_dump_def
      load_config_def doc_customs_def migrate_def bind_def DEFAULT_API_CONFIGS_def
      migrate_type_def migrate_entry_def fill_key_def api_entry_def default_config_def)

lemma bind_simps [simp]: "bind (Inl e) f = Inl e" "bind (Inr x) f = f x"
  by (simp_all add: bind_def)

lemma fill_key_Inl [simp]: "fill_key kv (Inl e) = Inl e"
  by (simp add: fill_key_def)

lemma fold_fill_key_Inl [simp]: "fold fill_key kvs (Inl e) = Inl e"
  by (induction kvs) simp_all

lemma fill_key_present: "py_in (fst kv) x = Inr True \<Longrightarrow> fill_key kv (Inr x) = Inr x"
  by (simp add: fill_key_def)

lemma fill_key_nondict:
  assumes "fill_key kv (Inr x) = Inr x'" and "\<forall>e. x \<noteq> JObj e"
  shows "x' = x \<and> py_in (fst kv) x = Inr True"
  using assms by (cases x) (auto simp: fill_key_def split: if_splits)

lemma fold_fill_key_settled:
  "\<forall>kv \<in> set kvs. py_in (fst kv) x = Inr True \<Longrightarrow> fold fill_key kvs (Inr x) = Inr x"
  by (induction kvs) (simp_all add: fill_key_present)

lemma migrate_entry_settled: "entry_settled dflt x \<Longrightarrow> migrate_entry dflt x = Inr x"
  by (simp add: migrate_entry_def entry_settled_def list_all_iff fill_key_present
      fold_fill_key_settled)

lemma fill_key_dict: "fill_key kv (Inr (JObj e)) = Inr (JObj (fill_field kv e))"
  by (simp add: fill_key_def fill_field_def)

lemma fold_fill_key_dict:
  "fold fill_key kvs (Inr (JObj e)) = Inr (JObj (fold fill_field kvs e))"
  by (induction kvs arbitrary: e) (simp_all add: fill_key_dict)

lemma migrate_entry_dict: "migrate_entry dflt (JObj e) = Inr (JObj (filled dflt e))"
  by (simp add: migrate_entry_def filled_def fill_key_dict fold_fill_key_dict)

lemma map_of_fill_field:
  "map_of (fill_field kv e) f =
     (case map_of e f of Some v \<Rightarrow> Some v | None \<Rightarrow> if f = fst kv then Some (snd kv) else None)"
proof (cases "fst kv \<in> set (map fst e)")
  case True
  then have "map_of e (fst kv) \<noteq> None" by (simp add: map_of_eq_None_iff)
  with True show ?thesis by (auto simp: fill_field_def split: option.splits)
next
  case False
  then have "map_of e (fst kv) = None" by (simp add: map_of_eq_None_iff)
  with False show ?thesis by (auto simp: fill_field_def update_conv' split: option.splits)
qed

lemma map_of_fold_fill_field:
  "map_of (fold fill_field kvs e) f =
     (case map_of e f of Some v \<Rightarrow> Some v | None \<Rightarrow> map_of kvs f)"
proof (induction kvs arbitrary: e)
  case Nil
  then show ?case by (simp split: option.splits)
next
  case (Cons kv kvs)
  obtain k v where kv: "kv = (k, v)" by (cases kv)
  show ?case
    by (simp add: Cons.IH map_of_fill_field kv split: option.splits)
qed

lemma map_of_filled:
  "map_of (filled dflt e) f =
     (case map_of e f of
        Some v \<Rightarrow> Some v
      | None \<Rightarrow> map_of ((''custom_models'', JArr []) # dflt) f)"
  unfolding filled_def by (rule map_of_fold_fill_field)

lemma fold_fill_key_nondict:
  assumes "fold fill_key kvs (Inr x) = Inr x'" and "\<forall>e. x \<noteq> JObj e"
  shows "x' = x \<and> (\<forall>kv \<in> set kvs. py_in (fst kv) x = Inr True)"
  using assms
proof (induction kvs)
  case Nil
  then show ?case by simp
next
  case (Cons kv kvs)
  show ?case
  proof (cases "fill_key kv (Inr x)")
    case (Inl e)
    with Cons.prems show ?thesis by simp
  next
    case (Inr x1)
    from fill_key_nondict [OF Inr Cons.prems(2)] Inr Cons show ?thesis by simp
  qed
qed

lemma migrate_entry_next:
  assumes "migrate_entry dflt x = Inr x'"
  shows "entry_next dflt x x'"
proof (cases "\<exists>e. x = JObj e")
  case True
  with assms show ?thesis by (auto simp: entry_next_def migrate_entry_dict)
next
  case False
  then have n: "\<forall>e. x \<noteq> JObj e" by blast
  from assms have f: "fold fill_key ((''custom_models'', JArr []) # dflt) (Inr x) = Inr x'"
    by (simp add: migrate_entry_def)
  from fold_fill_key_nondict [OF f n] have "x' = x" and "entry_settled dflt x"
    by (auto simp: entry_settled_def list_all_iff)
  with n show ?thesis by (cases x) (simp_all add: entry_next_def)
qed

lemma migrate_type_Inl [simp]: "migrate_type td (Inl e) = Inl e"
  by (simp add: migrate_type_def)

lemma fold_migrate_type_Inl [simp]: "fold migrate_type D (Inl e) = Inl e"
  by (induction D) simp_all

lemma migrate_type_result:
  assumes "migrate_type (t, e) (Inr (config, ts)) = Inr (config', ts')"
  shows "\<exists>kvs am am'. config = JObj kvs \<and> map_of kvs ''api_configs'' = Some (JObj am) \<and>
           config' = JObj (AList.update ''api_configs'' (JObj am') kvs) \<and>
           ((t \<notin> set (map fst am) \<and> am' = AList.update t (JObj e) am \<and> ts' = ts @ [t]) \<or>
            (\<exists>x x'. map_of am t = Some x \<and> migrate_entry e x = Inr x' \<and>
                     am' = AList.update t x' am \<and> ts' = ts))"
proof (cases config)
  case (JObj kvs)
  show ?thesis
  proof (cases "map_of kvs ''api_configs''")
    case None
    with JObj assms show ?thesis by (simp add: migrate_type_def)
  next
    case (Some a)
    show ?thesis
    proof (cases "\<exists>am. a = JObj am")
      case False
      with JObj Some assms show ?thesis
        by (cases a) (auto simp: migrate_type_def split: if_splits)
    next
      case True
      then obtain am where a: "a = JObj am" ..
      show ?thesis
      proof (cases "t \<in> set (map fst am)")
        case False
        with JObj Some a assms show ?thesis
          by (auto simp: migrate_type_def)
      next
        case True
        then obtain x where x: "map_of am t = Some x"
          by (metis map_of_eq_None_iff not_Some_eq set_map)
        show ?thesis
        proof (cases "migrate_entry e x")
          case (Inl err)
          with JObj Some a True x assms show ?thesis by (simp add: migrate_type_def)
        next
          case (Inr x')
          with JObj Some a True x assms show ?thesis by (auto simp: migrate_type_def)
        qed
      qed
    qed
  qed
qed (use assms in \<open>simp_all add: migrate_type_def\<close>)

lemma migrate_type_settled:
  assumes "map_of kvs ''api_configs'' = Some (JObj am)"
    and "map_of am t = Some x" and "entry_settled e x"
  shows "migrate_type (t, e) (Inr (JObj kvs, ts)) = Inr (JObj kvs, ts)"
proof -
  from assms(2) have "t \<in> set (map fst am)"
    by (metis map_of_eq_None_iff option.distinct(1) set_map)
  with assms show ?thesis
    by (simp add: migrate_type_def migrate_entry_settled update_triv)
qed

lemma fold_migrate_type_settled:
  assumes "map_of kvs ''api_configs'' = Some (JObj am)"
    and "\<forall>te \<in> set D. \<exists>x. map_of am (fst te) = Some x \<and> entry_settled (snd te) x"
  shows "fold migrate_type D (Inr (JObj kvs, ts)) = Inr (JObj kvs, ts)"
  using assms(2)
proof (induction D)
  case Nil
  then show ?case by simp
next
  case (Cons te D)
  then obtain x where "map_of am (fst te) = Some x" "entry_settled (snd te) x" by auto
  from migrate_type_settled [OF assms(1) this, of ts]
  have "migrate_type te (Inr (JObj kvs, ts)) = Inr (JObj kvs, ts)" by simp
  with Cons show ?case by simp
qed

lemma map_of_update_other: "u \<noteq> t \<Longrightarrow> map_of (AList.update t v al) u = map_of al u"
  by (simp add: update_conv')

lemma map_of_update_same: "map_of (AList.update t v al) t = Some v"
  by (simp add: update_conv')

lemma in_keys_iff: "t \<in> set (map fst al) \<longleftrightarrow> (\<exists>x. map_of al t = Some x)"
  by (metis map_of_eq_None_iff not_Some_eq set_map)

text \<open>One step of the loop over the default table, seen on the dict of backends.\<close>

lemma migrate_type_step:
  assumes "migrate_type (t, e) (Inr (JObj kvs, ts)) = Inr (config', ts')"
    and "map_of kvs ''api_configs'' = Some (JObj am)"
  shows "\<exists>am' x'. config' = JObj (AList.update ''api_configs'' (JObj am') kvs) \<and>
           am' = AList.update t x' am \<and>
           (case map_of am t of
              None \<Rightarrow> x' = JObj e
            | Some x \<Rightarrow> entry_next e x x')"
proof -
  from migrate_type_result [OF assms(1)] assms(2)
  obtain am' where c: "config' = JObj (AList.update ''api_configs'' (JObj am') kvs)"
    and d: "(t \<notin> set (map fst am) \<and> am' = AList.update t (JObj e) am \<and> ts' = ts @ [t]) \<or>
            (\<exists>x x'. map_of am t = Some x \<and> migrate_entry e x = Inr x' \<and>
                     am' = AList.update t x' am \<and> ts' = ts)"
    by auto
  from d show ?thesis
  proof
    assume h: "t \<notin> set (map fst am) \<and> am' = AList.update t (JObj e) am \<and> ts' = ts @ [t]"
    then have "map_of am t = None" by (simp add: map_of_eq_None_iff)
    with c h show ?thesis by auto
  next
    assume "\<exists>x x'. map_of am t = Some x \<and> migrate_entry e x = Inr x' \<and>
                     am' = AList.update t x' am \<and> ts' = ts"
    then obtain x x' where x: "map_of am t = Some x" and m: "migrate_entry e x = Inr x'"
      and a: "am' = AList.update t x' am" by blast
    from migrate_entry_next [OF m] x a c show ?thesis by auto
  qed
qed

lemma fold_migrate_type_result:
  assumes "fold migrate_type D (Inr (JObj kvs, ts)) = Inr (config', ts')"
    and "map_of kvs ''api_configs'' = Some (JObj am)"
    and "distinct (map fst D)"
  shows "\<exists>am'. config' = JObj (AList.update ''api_configs'' (JObj am') kvs) \<and>
           (\<forall>te \<in> set D. entry_after (snd te) (map_of am (fst te)) (map_of am' (fst te))) \<and>
           (\<forall>u. u \<notin> set (map fst D) \<longrightarrow> map_of am' u = map_of am u)"
  using assms
proof (induction D arbitrary: kvs ts am)
  case Nil
  then have "config' = JObj kvs" by simp
  with Nil.prems(2) have "config' = JObj (AList.update ''api_configs'' (JObj am) kvs)"
    by (simp add: update_triv)
  then show ?case by auto
next
  case (Cons te D)
  obtain t e where te: "te = (t, e)" by (cases te)
  show ?case
  proof (cases "migrate_type (t, e) (Inr (JObj kvs, ts))")
    case (Inl err)
    with Cons.prems(1) te show ?thesis by simp
  next
    case (Inr r)
    obtain config1 ts1 where r: "r = (config1, ts1)" by (cases r)
    from migrate_type_step [OF Inr [unfolded r] Cons.prems(2)]
    obtain am1 x1 where c1: "config1 = JObj (AList.update ''api_configs'' (JObj am1) kvs)"
      and a1: "am1 = AList.update t x1 am"
      and x1: "case map_of am t of None \<Rightarrow> x1 = JObj e
                | Some x \<Rightarrow> entry_next e x x1"
      by blast
    let ?kvs1 = "AList.update ''api_configs'' (JObj am1) kvs"
    have m1: "map_of ?kvs1 ''api_configs'' = Some (JObj am1)"
      by (rule map_of_update_same)
    from Cons.prems(1) te Inr r c1
    have f: "fold migrate_type D (Inr (JObj ?kvs1, ts1)) = Inr (config', ts')" by simp
    from Cons.prems(3) have d: "distinct (map fst D)" and tD: "t \<notin> set (map fst D)"
      using te by auto
    from Cons.IH [OF f m1 d]
    obtain am' where c': "config' = JObj (AList.update ''api_configs'' (JObj am') ?kvs1)"
      and ih1: "\<forall>te \<in> set D. entry_after (snd te) (map_of am1 (fst te)) (map_of am' (fst te))"
      and ih2: "\<forall>u. u \<notin> set (map fst D) \<longrightarrow> map_of am' u = map_of am1 u"
      by blast
    have g1: "config' = JObj (AList.update ''api_configs'' (JObj am') kvs)"
      using c' by simp
    have at: "map_of am' t = Some x1"
      using ih2 tD a1 by (simp add: map_of_update_same)
    have g2: "entry_after e (map_of am t) (map_of am' t)"
      using x1 at by (simp add: entry_after_def split: option.splits)
    have g3: "\<forall>te \<in> set D. entry_after (snd te) (map_of am (fst te)) (map_of am' (fst te))"
    proof
      fix te' assume i: "te' \<in> set D"
      with tD have "fst te' \<noteq> t" by force
      then have "map_of am1 (fst te') = map_of am (fst te')"
        using a1 by (simp add: map_of_update_other)
      with ih1 i show "entry_after (snd te') (map_of am (fst te')) (map_of am' (fst te'))"
        by force
    qed
    have g4: "\<forall>u. u \<notin> set (map fst (te # D)) \<longrightarrow> map_of am' u = map_of am u"
      using ih2 a1 te by (simp add: map_of_update_other)
    from g1 g2 g3 g4 te show ?thesis by auto
  qed
qed


lemma map_of_table_json: "map_of (table_json D) t = map_option JObj (map_of D t)"
  by (induction D) (auto simp: table_json_def)

lemma entry_settled_self:
  "''custom_models'' \<in> set (map fst e) \<Longrightarrow> entry_settled e (JObj e)"
  by (auto simp: entry_settled_def list_all_iff)

lemma entry_next_settled:
  assumes "entry_next e x x'"
  shows "entry_settled e x'"
proof (cases "\<exists>e0. x = JObj e0")
  case True
  then obtain e0 where x: "x = JObj e0" ..
  with assms have x': "x' = JObj (filled e e0)" by (simp add: entry_next_def)
  have "\<forall>k \<in> set (''custom_models'' # map fst e). k \<in> set (map fst (filled e e0))"
  proof
    fix k assume "k \<in> set (''custom_models'' # map fst e)"
    then have "k \<in> set (map fst ((''custom_models'', JArr []) # e))" by simp
    then have "map_of ((''custom_models'', JArr []) # e) k \<noteq> None"
      using map_of_eq_None_iff [of "(''custom_models'', JArr []) # e" k] by (metis set_map)
    then have "map_of (filled e e0) k \<noteq> None"
      by (simp add: map_of_filled split: option.splits)
    then show "k \<in> set (map fst (filled e e0))"
      using map_of_eq_None_iff [of "filled e e0" k] by (metis set_map)
  qed
  with x' show ?thesis by (simp add: entry_settled_def list_all_iff)
next
  case False
  with assms show ?thesis by (cases x) (simp_all add: entry_next_def)
qed

lemma entry_after_settled:
  assumes "entry_after e before after" and "''custom_models'' \<in> set (map fst e)"
  shows "\<exists>x. after = Some x \<and> entry_settled e x"
  using assms by (auto simp: entry_after_def entry_settled_self entry_next_settled split: option.splits)

lemma migrate_type_needs_dict:
  assumes "migrate_type te (Inr (config, ts)) = Inr r"
  shows "\<exists>kvs am. config = JObj kvs \<and> map_of kvs ''api_configs'' = Some (JObj am)"
proof -
  obtain t e where te: "te = (t, e)" by (cases te)
  obtain c' ts' where r: "r = (c', ts')" by (cases r)
  from migrate_type_result [OF assms [unfolded te r]] show ?thesis by blast
qed

lemma fold_migrate_type_needs_dict:
  assumes "fold migrate_type D (Inr (config, ts)) = Inr r" and "D \<noteq> []"
  shows "\<exists>kvs am. config = JObj kvs \<and> map_of kvs ''api_configs'' = Some (JObj am)"
proof -
  from assms(2) obtain te D' where D: "D = te # D'" by (cases D) auto
  show ?thesis
  proof (cases "migrate_type te (Inr (config, ts))")
    case (Inl e)
    with assms(1) D show ?thesis by simp
  next
    case (Inr r1)
    then show ?thesis by (rule migrate_type_needs_dict)
  qed
qed

text \<open>The two ways the migration can end without raising.\<close>

lemma migrate_result:
  assumes "migrate D config = Inr (config', sh)" and "D \<noteq> []" and "distinct (map fst D)"
  shows "\<exists>kvs. config = JObj kvs \<and>
           ((''api_configs'' \<notin> set (map fst kvs) \<and>
             config' = JObj (AList.update ''api_configs'' (JObj (table_json D)) kvs) \<and>
             sh = EntriesShared) \<or>
            (\<exists>am am' ts. map_of kvs ''api_configs'' = Some (JObj am) \<and>
               config' = JObj (AList.update ''api_configs'' (JObj am') kvs) \<and>
               sh = ListsShared ts \<and>
               (\<forall>te \<in> set D. entry_after (snd te) (map_of am (fst te)) (map_of am' (fst te))) \<and>
               (\<forall>u. u \<notin> set (map fst D) \<longrightarrow> map_of am' u = map_of am u)))"
proof (cases "py_in ''api_configs'' config")
  case (Inl e)
  with assms(1) show ?thesis by (simp add: migrate_def)
next
  case (Inr present)
  show ?thesis
  proof (cases present)
    case False
    with Inr assms(1) obtain kvs where k: "config = JObj kvs"
      by (cases config) (auto simp: migrate_def)
    with Inr False assms(1) show ?thesis
      by (auto simp: migrate_def table_json_def)
  next
    case True
    with Inr assms(1) obtain r where
      f: "fold migrate_type D (Inr (config, [])) = Inr r"
      by (cases "fold migrate_type D (Inr (config, []))") (auto simp: migrate_def)
    obtain c1 ts where r: "r = (c1, ts)" by (cases r)
    from True Inr assms(1) f r have c1: "c1 = config'" and sh: "sh = ListsShared ts"
      by (auto simp: migrate_def)
    from fold_migrate_type_needs_dict [OF f assms(2)]
    obtain kvs am where k: "config = JObj kvs" and a: "map_of kvs ''api_configs'' = Some (JObj am)"
      by blast
    from fold_migrate_type_result [OF f [unfolded k r c1] a assms(3)] k a sh
    show ?thesis by blast
  qed
qed

lemma migrate_settled:
  assumes "settled D config"
  shows "migrate D config = Inr (config, ListsShared [])"
proof -
  from assms obtain kvs where k: "config = JObj kvs" by (cases config) simp_all
  from assms k obtain am where a: "map_of kvs ''api_configs'' = Some (JObj am)"
    by (auto split: option.splits json.splits)
  from assms k a
  have s: "\<forall>te \<in> set D. \<exists>x. map_of am (fst te) = Some x \<and> entry_settled (snd te) x"
    by (auto simp: list_all_iff split: option.splits)
  from a have "''api_configs'' \<in> set (map fst kvs)"
    using in_keys_iff [of "''api_configs''" kvs] by blast
  with fold_migrate_type_settled [OF a s, of "[]"] k show ?thesis
    by (simp add: migrate_def)
qed

lemma migrate_result_settled:
  assumes "migrate D config = Inr (config', sh)" and "wf_defaults D"
  shows "settled D config'"
proof -
  from assms(2) have ne: "D \<noteq> []" and d: "distinct (map fst D)"
    and cm: "\<forall>te \<in> set D. ''custom_models'' \<in> set (map fst (snd te))"
    by (simp_all add: wf_defaults_def list_all_iff)
  from migrate_result [OF assms(1) ne d] obtain kvs where k: "config = JObj kvs"
    and c: "(''api_configs'' \<notin> set (map fst kvs) \<and>
             config' = JObj (AList.update ''api_configs'' (JObj (table_json D)) kvs) \<and>
             sh = EntriesShared) \<or>
            (\<exists>am am' ts. map_of kvs ''api_configs'' = Some (JObj am) \<and>
               config' = JObj (AList.update ''api_configs'' (JObj am') kvs) \<and>
               sh = ListsShared ts \<and>
               (\<forall>te \<in> set D. entry_after (snd te) (map_of am (fst te)) (map_of am' (fst te))) \<and>
               (\<forall>u. u \<notin> set (map fst D) \<longrightarrow> map_of am' u = map_of am u))"
    by blast
  from c show ?thesis
  proof
    assume h: "''api_configs'' \<notin> set (map fst kvs) \<and>
             config' = JObj (AList.update ''api_configs'' (JObj (table_json D)) kvs) \<and>
             sh = EntriesShared"
    have "\<forall>te \<in> set D. \<exists>x. map_of (table_json D) (fst te) = Some x \<and> entry_settled (snd te) x"
    proof
      fix te assume i: "te \<in> set D"
      with d have "map_of D (fst te) = Some (snd te)" by simp
      then have "map_of (table_json D) (fst te) = Some (JObj (snd te))"
        by (simp add: map_of_table_json)
      with cm i show "\<exists>x. map_of (table_json D) (fst te) = Some x \<and> entry_settled (snd te) x"
        by (simp add: entry_settled_self)
    qed
    with h show ?thesis
      by (auto simp: map_of_update_same list_all_iff)
  next
    assume "\<exists>am am' ts. map_of kvs ''api_configs'' = Some (JObj am) \<and>
               config' = JObj (AList.update ''api_configs'' (JObj am') kvs) \<and>
               sh = ListsShared ts \<and>
               (\<forall>te \<in> set D. entry_after (snd te) (map_of am (fst te)) (map_of am' (fst te))) \<and>
               (\<forall>u. u \<notin> set (map fst D) \<longrightarrow> map_of am' u = map_of am u)"
    then obtain am am' where c': "config' = JObj (AList.update ''api_configs'' (JObj am') kvs)"
      and e: "\<forall>te \<in> set D. entry_after (snd te) (map_of am (fst te)) (map_of am' (fst te))"
      by blast
    have "\<forall>te \<in> set D. \<exists>x. map_of am' (fst te) = Some x \<and> entry_settled (snd te) x"
      using e cm entry_after_settled by blast
    with c' show ?thesis
      by (auto simp: map_of_update_same list_all_iff)
  qed
qed

lemma migrate_idempotent:
  assumes "migrate D config = Inr (config', sh)" and "wf_defaults D"
  shows "migrate D config' = Inr (config', ListsShared [])"
  using migrate_settled [OF migrate_result_settled [OF assms]] .


lemma load_config_keeps_existing_file:
  "config_file s \<noteq> Missing \<Longrightarrow> snd (load_config s) = s"
  by (cases "config_file s") (simp_all add: load_config_def split: sum.splits)

lemma load_config_document:
  "config_file s = Document doc \<Longrightarrow> migrate (defaults s) doc = Inr cs \<Longrightarrow>
   load_config s = (cs, s)"
  by (simp add: load_config_def)

lemma load_config_settled:
  assumes "config_file s = Document doc" and "settled (defaults s) doc"
  shows "load_config s = ((doc, ListsShared []), s)"
  using load_config_document [OF assms(1) migrate_settled [OF assms(2)]] .

text \<open>The entry of one backend of the table after a migration that did not raise.\<close>

lemma entry_after_cases:
  assumes "entry_after e (map_of am t) (map_of am' t)"
  shows "(map_of am t = None \<longrightarrow> map_of am' t = Some (JObj e)) \<and>
         (\<forall>e0. map_of am t = Some (JObj e0) \<longrightarrow>
            (\<exists>e1. map_of am' t = Some (JObj e1) \<and>
               (\<forall>f. map_of e1 f =
                      (case map_of e0 f of
                         Some v \<Rightarrow> Some v
                       | None \<Rightarrow> map_of ((''custom_models'', JArr []) # e) f)))) \<and>
         (\<forall>x. map_of am t = Some x \<and> (\<forall>e0. x \<noteq> JObj e0) \<longrightarrow> map_of am' t = Some x)"
proof (intro conjI allI impI)
  assume "map_of am t = None"
  with assms show "map_of am' t = Some (JObj e)" by (simp add: entry_after_def)
next
  fix e0 assume "map_of am t = Some (JObj e0)"
  with assms have "map_of am' t = Some (JObj (filled e e0))"
    by (simp add: entry_after_def entry_next_def)
  then show "\<exists>e1. map_of am' t = Some (JObj e1) \<and>
               (\<forall>f. map_of e1 f =
                      (case map_of e0 f of
                         Some v \<Rightarrow> Some v
                       | None \<Rightarrow> map_of ((''custom_models'', JArr []) # e) f))"
    using map_of_filled by blast
next
  fix x assume h: "map_of am t = Some x \<and> (\<forall>e0. x \<noteq> JObj e0)"
  with assms obtain x' where x': "map_of am' t = Some x'" and n: "entry_next e x x'"
    by (auto simp: entry_after_def)
  from n h have "x' = x" by (cases x) (simp_all add: entry_next_def)
  with x' show "map_of am' t = Some x" by simp
qed

subsection \<open>Loading with migration\<close>

text \<open>
  For a well-formed default table and a file whose migration does not raise:
  \<open>load_config\<close> returns the migrated configuration and leaves the state as it is;
  loading the migrated configuration returns it unchanged, so that a second load is the
  same as the first. The migration is additive against the table of the state: every
  top-level key other than \<open>api_configs\<close> keeps its value; a missing \<open>api_configs\<close>
  becomes the table; a backend of the table that is missing gets the table's entry; in
  an entry that is present every field keeps its value and a missing field gets the
  value of the table (the empty list for \<open>custom_models\<close>); an entry that is not a dict
  and every backend unknown to the table stay as they are.
\<close>

lemma migration_additive:
  assumes "wf_defaults (defaults s)"
    and "config_file s = Document doc"
    and "migrate (defaults s) doc = Inr (doc', sh)"
  shows "load_config s = ((doc', sh), s) \<and>
         load_config (s\<lparr>config_file := Document doc'\<rparr>) =
           ((doc', ListsShared []), s\<lparr>config_file := Document doc'\<rparr>) \<and>
         (\<exists>kvs kvs' am'. doc = JObj kvs \<and> doc' = JObj kvs' \<and>
            (\<forall>k. k \<noteq> ''api_configs'' \<longrightarrow> map_of kvs' k = map_of kvs k) \<and>
            map_of kvs' ''api_configs'' = Some (JObj am') \<and>
            (map_of kvs ''api_configs'' = None \<longrightarrow> am' = table_json (defaults s)) \<and>
            (\<forall>am. map_of kvs ''api_configs'' = Some (JObj am) \<longrightarrow>
               (\<forall>t e. map_of (defaults s) t = Some e \<longrightarrow>
                  (map_of am t = None \<longrightarrow> map_of am' t = Some (JObj e)) \<and>
                  (\<forall>e0. map_of am t = Some (JObj e0) \<longrightarrow>
                     (\<exists>e1. map_of am' t = Some (JObj e1) \<and>
                        (\<forall>f. map_of e1 f =
                               (case map_of e0 f of
                                  Some v \<Rightarrow> Some v
                                | None \<Rightarrow> map_of ((''custom_models'', JArr []) # e) f)))) \<and>
                  (\<forall>x. map_of am t = Some x \<and> (\<forall>e0. x \<noteq> JObj e0) \<longrightarrow>
                     map_of am' t = Some x)) \<and>
               (\<forall>t. map_of (defaults s) t = None \<longrightarrow> map_of am' t = map_of am t)))"
proof -
  let ?D = "defaults s"
  let ?entries = "\<lambda>am am'.
        (\<forall>t e. map_of ?D t = Some e \<longrightarrow>
                  (map_of am t = None \<longrightarrow> map_of am' t = Some (JObj e)) \<and>
                  (\<forall>e0. map_of am t = Some (JObj e0) \<longrightarrow>
                     (\<exists>e1. map_of am' t = Some (JObj e1) \<and>
                        (\<forall>f. map_of e1 f =
                               (case map_of e0 f of
                                  Some v \<Rightarrow> Some v
                                | None \<Rightarrow> map_of ((''custom_models'', JArr []) # e) f)))) \<and>
                  (\<forall>x. map_of am t = Some x \<and> (\<forall>e0. x \<noteq> JObj e0) \<longrightarrow>
                     map_of am' t = Some x)) \<and>
               (\<forall>t. map_of ?D t = None \<longrightarrow> map_of am' t = map_of am t)"
  let ?additive = "\<lambda>kvs kvs' am'. doc = JObj kvs \<and> doc' = JObj kvs' \<and>
            (\<forall>k. k \<noteq> ''api_configs'' \<longrightarrow> map_of kvs' k = map_of kvs k) \<and>
            map_of kvs' ''api_configs'' = Some (JObj am') \<and>
            (map_of kvs ''api_configs'' = None \<longrightarrow> am' = table_json ?D) \<and>
            (\<forall>am. map_of kvs ''api_configs'' = Some (JObj am) \<longrightarrow> ?entries am am')"
  from assms(1) have ne: "?D \<noteq> []" and d: "distinct (map fst ?D)"
    by (simp_all add: wf_defaults_def)
  have a: "load_config s = ((doc', sh), s)"
    using load_config_document [OF assms(2,3)] .
  have "settled ?D doc'" using migrate_result_settled [OF assms(3,1)] .
  then have b: "load_config (s\<lparr>config_file := Document doc'\<rparr>) =
           ((doc', ListsShared []), s\<lparr>config_file := Document doc'\<rparr>)"
    using load_config_settled [of "s\<lparr>config_file := Document doc'\<rparr>" doc'] by simp
  from migrate_result [OF assms(3) ne d] obtain kvs where k: "doc = JObj kvs"
    and c: "(''api_configs'' \<notin> set (map fst kvs) \<and>
             doc' = JObj (AList.update ''api_configs'' (JObj (table_json ?D)) kvs) \<and>
             sh = EntriesShared) \<or>
            (\<exists>am am' ts. map_of kvs ''api_configs'' = Some (JObj am) \<and>
               doc' = JObj (AList.update ''api_configs'' (JObj am') kvs) \<and>
               sh = ListsShared ts \<and>
               (\<forall>te \<in> set ?D. entry_after (snd te) (map_of am (fst te)) (map_of am' (fst te))) \<and>
               (\<forall>u. u \<notin> set (map fst ?D) \<longrightarrow> map_of am' u = map_of am u))"
    by blast
  from c have "\<exists>kvs kvs' am'. ?additive kvs kvs' am'"
  proof
    assume h: "''api_configs'' \<notin> set (map fst kvs) \<and>
             doc' = JObj (AList.update ''api_configs'' (JObj (table_json ?D)) kvs) \<and>
             sh = EntriesShared"
    let ?kvs' = "AList.update ''api_configs'' (JObj (table_json ?D)) kvs"
    from h have n: "map_of kvs ''api_configs'' = None" by (simp add: map_of_eq_None_iff)
    have 1: "doc' = JObj ?kvs'" using h by simp
    have 2: "\<forall>k. k \<noteq> ''api_configs'' \<longrightarrow> map_of ?kvs' k = map_of kvs k"
      by (simp add: update_conv')
    have 3: "map_of ?kvs' ''api_configs'' = Some (JObj (table_json ?D))"
      by (simp add: update_conv')
    have 4: "map_of kvs ''api_configs'' = None \<longrightarrow> table_json ?D = table_json ?D" by simp
    have 5: "\<forall>am. map_of kvs ''api_configs'' = Some (JObj am) \<longrightarrow> ?entries am (table_json ?D)"
      using n by simp
    have "?additive kvs ?kvs' (table_json ?D)"
      by (intro conjI) (rule k 1 2 3 4 5)+
    then show ?thesis by (intro exI)
  next
    assume "\<exists>am am' ts. map_of kvs ''api_configs'' = Some (JObj am) \<and>
               doc' = JObj (AList.update ''api_configs'' (JObj am') kvs) \<and>
               sh = ListsShared ts \<and>
               (\<forall>te \<in> set ?D. entry_after (snd te) (map_of am (fst te)) (map_of am' (fst te))) \<and>
               (\<forall>u. u \<notin> set (map fst ?D) \<longrightarrow> map_of am' u = map_of am u)"
    then obtain am am' where am: "map_of kvs ''api_configs'' = Some (JObj am)"
      and d': "doc' = JObj (AList.update ''api_configs'' (JObj am') kvs)"
      and ea: "\<forall>te \<in> set ?D. entry_after (snd te) (map_of am (fst te)) (map_of am' (fst te))"
      and other: "\<forall>u. u \<notin> set (map fst ?D) \<longrightarrow> map_of am' u = map_of am u"
      by blast
    let ?kvs' = "AList.update ''api_configs'' (JObj am') kvs"
    have tab: "\<forall>t e. map_of ?D t = Some e \<longrightarrow>
                  (map_of am t = None \<longrightarrow> map_of am' t = Some (JObj e)) \<and>
                  (\<forall>e0. map_of am t = Some (JObj e0) \<longrightarrow>
                     (\<exists>e1. map_of am' t = Some (JObj e1) \<and>
                        (\<forall>f. map_of e1 f =
                               (case map_of e0 f of
                                  Some v \<Rightarrow> Some v
                                | None \<Rightarrow> map_of ((''custom_models'', JArr []) # e) f)))) \<and>
                  (\<forall>x. map_of am t = Some x \<and> (\<forall>e0. x \<noteq> JObj e0) \<longrightarrow>
                     map_of am' t = Some x)"
    proof (intro allI impI)
      fix t e assume "map_of ?D t = Some e"
      then have "(t, e) \<in> set ?D" by (rule map_of_SomeD)
      with ea have "entry_after e (map_of am t) (map_of am' t)" by force
      then show "(map_of am t = None \<longrightarrow> map_of am' t = Some (JObj e)) \<and>
                  (\<forall>e0. map_of am t = Some (JObj e0) \<longrightarrow>
                     (\<exists>e1. map_of am' t = Some (JObj e1) \<and>
                        (\<forall>f. map_of e1 f =
                               (case map_of e0 f of
                                  Some v \<Rightarrow> Some v
                                | None \<Rightarrow> map_of ((''custom_models'', JArr []) # e) f)))) \<and>
                  (\<forall>x. map_of am t = Some x \<and> (\<forall>e0. x \<noteq> JObj e0) \<longrightarrow>
                     map_of am' t = Some x)"
        by (rule entry_after_cases)
    qed
    have oth: "\<forall>t. map_of ?D t = None \<longrightarrow> map_of am' t = map_of am t"
      using other by (simp add: map_of_eq_None_iff)
    have e: "?entries am am'" using tab oth by (rule conjI)
    have 1: "doc' = JObj ?kvs'" using d' .
    have 2: "\<forall>k. k \<noteq> ''api_configs'' \<longrightarrow> map_of ?kvs' k = map_of kvs k"
      by (simp add: update_conv')
    have 3: "map_of ?kvs' ''api_configs'' = Some (JObj am')"
      by (simp add: update_conv')
    have 4: "map_of kvs ''api_configs'' = None \<longrightarrow> am' = table_json ?D"
      using am by simp
    have 5: "\<forall>am0. map_of kvs ''api_configs'' = Some (JObj am0) \<longrightarrow> ?entries am0 am'"
    proof (intro allI impI)
      fix am0 assume "map_of kvs ''api_configs'' = Some (JObj am0)"
      with am have "am0 = am" by simp
      then show "?entries am0 am'" using e by (simp only:)
    qed
    have "?additive kvs ?kvs' am'"
      by (intro conjI) (rule k 1 2 3 4 5)+
    then show ?thesis by (intro exI)
  qed
  with a b show ?thesis by (intro conjI)
qed

lemma wf_DEFAULT_API_CONFIGS: "wf_defaults DEFAULT_API_CONFIGS"
  by (simp add: wf_defaults_def DEFAULT_API_CONFIGS_def api_entry_def)

lemma migrate_doc_partial:
  "migrate DEFAULT_API_CONFIGS doc_partial =
     Inr (doc_partial_migrated,
          ListsShared [''Grok API'', ''OpenAI Compatible'', ''Qwen Image'', ''GLM Image''])"
  by (simp add: migrate_def doc_partial_def doc_partial_migrated_def DEFAULT_API_CONFIGS_def
      migrate_type_def migrate_entry_def fill_key_def api_entry_def)

text \<open>A file with an unknown top-level key, one backend and an unknown field in it.\<close>

lemma migration_additive_partial:
  "wf_defaults (defaults (fresh_world (Document doc_partial))) \<and>
   config_file (fresh_world (Document doc_partial)) = Document doc_partial \<and>
   load_config (fresh_world (Document doc_partial)) =
     ((doc_partial_migrated,
       ListsShared [''Grok API'', ''OpenAI Compatible'', ''Qwen Image'', ''GLM Image'']),
      fresh_world (Document doc_partial)) \<and>
   load_config (fresh_world (Document doc_partial_migrated)) =
     ((doc_partial_migrated, ListsShared []), fresh_world (Document doc_partial_migrated))"
proof -
  have w: "wf_defaults (defaults (fresh_world (Document doc_partial)))"
    by (simp add: fresh_world_def wf_DEFAULT_API_CONFIGS)
  have f: "config_file (fresh_world (Document doc_partial)) = Document doc_partial"
    by (simp add: fresh_world_def)
  have m: "migrate (defaults (fresh_world (Document doc_partial))) doc_partial =
     Inr (doc_partial_migrated,
          ListsShared [''Grok API'', ''OpenAI Compatible'', ''Qwen Image'', ''GLM Image''])"
    by (simp add: fresh_world_def migrate_doc_partial)
  from migration_additive [OF w f m] w f show ?thesis
    by (simp add: fresh_world_def)
qed

lemma migrate_doc_no_key:
  "migrate DEFAULT_API_CONFIGS doc_no_key =
     Inr (JObj [(''api_configs'',
            JObj [(''Gemini Native'',
                   JObj [(''base_url'', JStr ''https://proxy.example''),
                         (''custom_models'', JArr []), (''api_key'', JStr []),
                         (''model_name'', JStr ''gemini-2.5-flash-image'')]),
                  (''Grok API'',
                   JObj (api_entry [] ''https://api.x.ai'' ''grok-imagine-image-pro'' [])),
                  (''OpenAI Compatible'',
                   JObj (api_entry [] ''https://api.openai.com'' ''dall-e-3'' [])),
                  (''Qwen Image'',
                   JObj (api_entry [] ''https://dashscope.aliyuncs.com/api/v1''
                          ''qwen-image-plus'' [])),
                  (''GLM Image'',
                   JObj (api_entry [] ''https://open.bigmodel.cn/api'' ''glm-image'' []))])],
          ListsShared [''Grok API'', ''OpenAI Compatible'', ''Qwen Image'', ''GLM Image''])"
  by (simp add: migrate_def doc_no_key_def DEFAULT_API_CONFIGS_def migrate_type_def
      migrate_entry_def fill_key_def api_entry_def)

lemma secret_world_state:
  "secret_world =
     \<lparr>config_file = Document doc_no_key, disk = Completes,
      defaults = AList.update ''Gemini Native''
        (api_entry ''SECRET'' ''(SDK - Automatic)'' ''gemini-2.5-flash-image'' [])
        DEFAULT_API_CONFIGS\<rparr>"
proof -
  have l: "load_config (fresh_world Missing) =
      ((default_config DEFAULT_API_CONFIGS, AllShared),
       fresh_world (Document (default_config DEFAULT_API_CONFIGS)))"
    by (simp add: load_config_def fresh_world_def save_config_def open_for_write_def
        json_dump_def)
  have "snd (set_api_config ''Gemini Native'' (Some ''SECRET'') None None (fresh_world Missing)) =
       \<lparr>config_file = Document (JObj [(''api_configs'', JObj (table_json
            (AList.update ''Gemini Native''
               (api_entry ''SECRET'' ''(SDK - Automatic)'' ''gemini-2.5-flash-image'' [])
               DEFAULT_API_CONFIGS)))]),
        disk = Completes,
        defaults = AList.update ''Gemini Native''
               (api_entry ''SECRET'' ''(SDK - Automatic)'' ''gemini-2.5-flash-image'' [])
               DEFAULT_API_CONFIGS\<rparr>"
    by (simp add: set_api_config_def l)
      (simp add: fresh_world_def default_config_def DEFAULT_API_CONFIGS_def api_entry_def
        ensure_entry_def assign_fields_def assign_opt_def shares_entry_def table_json_def
        save_config_def open_for_write_def json_dump_def)
  then show ?thesis by (simp add: secret_world_def)
qed

text \<open>
  C9. A process stores the key \<open>SECRET\<close> for a backend while the file is missing; the
  file is then replaced by one whose entry for the backend has no \<open>api_key\<close>. The
  assignment went through the shallow copy of \<open>DEFAULT_CONFIG\<close> into the table of the
  module, so that \<open>load_config\<close> now fills the missing \<open>api_key\<close> with \<open>SECRET\<close>, where
  the default of the module text, which a new process fills in for the same file, is
  the empty string.
\<close>

theorem load_config_fills_from_changed_table:
  "config_file secret_world = Document doc_no_key \<and>
   entry_of ''Gemini Native'' (fst (fst (load_config secret_world))) =
     Some (JObj [(''base_url'', JStr ''https://proxy.example''), (''custom_models'', JArr []),
                 (''api_key'', JStr ''SECRET''),
                 (''model_name'', JStr ''gemini-2.5-flash-image'')]) \<and>
   entry_of ''Gemini Native'' (fst (fst (load_config (fresh_world (Document doc_no_key))))) =
     Some (JObj [(''base_url'', JStr ''https://proxy.example''), (''custom_models'', JArr []),
                 (''api_key'', JStr []),
                 (''model_name'', JStr ''gemini-2.5-flash-image'')]) \<and>
   map_of (default_entry ''Gemini Native'') ''api_key'' = Some (JStr [])"
proof -
  have a: "entry_of ''Gemini Native'' (fst (fst (load_config secret_world))) =
     Some (JObj [(''base_url'', JStr ''https://proxy.example''), (''custom_models'', JArr []),
                 (''api_key'', JStr ''SECRET''),
                 (''model_name'', JStr ''gemini-2.5-flash-image'')])"
    unfolding secret_world_state
    by (simp add: load_config_def migrate_def doc_no_key_def DEFAULT_API_CONFIGS_def
        migrate_type_def migrate_entry_def fill_key_def api_entry_def)
  have b: "entry_of ''Gemini Native''
        (fst (fst (load_config (fresh_world (Document doc_no_key))))) =
     Some (JObj [(''base_url'', JStr ''https://proxy.example''), (''custom_models'', JArr []),
                 (''api_key'', JStr []),
                 (''model_name'', JStr ''gemini-2.5-flash-image'')])"
    by (simp add: load_config_def fresh_world_def migrate_doc_no_key)
  have c: "map_of (default_entry ''Gemini Native'') ''api_key'' = Some (JStr [])"
    by (simp add: default_entry_def DEFAULT_API_CONFIGS_def api_entry_def)
  have d: "config_file secret_world = Document doc_no_key"
    by (simp add: secret_world_state)
  from d a b c show ?thesis by (intro conjI)
qed





lemma save_config_frame [simp]:
  "disk (save_config c s) = disk s" "defaults (save_config c s) = defaults s"
  by (simp_all add: save_config_def open_for_write_def json_dump_def
      split: write_outcome.splits)












subsection \<open>Updating fields of one backend\<close>














subsection \<open>Adding and removing a custom model\<close>













end
